theory Spec2Isabelle
  imports Main "HOL-Library.Log_Nat" "HOL-Library.Char_ord" "HOL-Library.List_Lexorder"
begin

section \<open>JavaScript values\<close>

text \<open>
  Both source files are JavaScript. A JavaScript number is an IEEE-754 double: here it is
  either \<open>NaN\<close> or a rational, and every arithmetic operation and every decimal literal
  is rounded to the nearest number with a 53-bit significand, ties to even (\<open>fl\<close>); the
  integer literals of the program are exact. The exponent range is not bounded:
  overflow to an infinity, underflow and the sign of zero are outside the model.
\<close>

datatype number = NaN | Fin rat

datatype js =
    Undefined
  | Null
  | Bool bool
  | Num number
  | Str string
  | Arr "js list"
  | Obj "(string \<times> js) list"

text \<open>An exception carries the text that \<open>error.message\<close> reads.\<close>

datatype exn = TypeError string | Failure string

fun message :: "exn \<Rightarrow> string" where
  "message (TypeError m) = m"
| "message (Failure m) = m"

definition bnd :: "exn + 'a \<Rightarrow> ('a \<Rightarrow> exn + 'b) \<Rightarrow> exn + 'b" where
  "bnd m f = (case m of Inl e \<Rightarrow> Inl e | Inr x \<Rightarrow> f x)"

fun truthy :: "js \<Rightarrow> bool" where
  "truthy Undefined = False"
| "truthy Null = False"
| "truthy (Bool b) = b"
| "truthy (Num NaN) = False"
| "truthy (Num (Fin q)) = (q \<noteq> 0)"
| "truthy (Str s) = (s \<noteq> [])"
| "truthy (Arr xs) = True"
| "truthy (Obj kvs) = True"

text \<open>\<open>a || b\<close>\<close>

definition js_or :: "js \<Rightarrow> js \<Rightarrow> js" where
  "js_or a b = (if truthy a then a else b)"

subsection \<open>Property reads\<close>

function string_of_nat :: "nat \<Rightarrow> string" where
  "string_of_nat n =
     (if n < 10 then [''0123456789'' ! n]
      else string_of_nat (n div 10) @ [''0123456789'' ! (n mod 10)])"
  by pat_completeness auto
termination
  by (relation "measure id") auto

declare string_of_nat.simps [simp del]

text \<open>
  \<open>x.k\<close> and \<open>x[k]\<close> for a string key. The alist of an object holds its own properties,
  the first binding of a key being the property. An array has its indices and \<open>length\<close>,
  a string its characters and \<open>length\<close>; the program reads no name that a prototype
  defines apart from \<open>length\<close>. Reading a property of \<open>undefined\<close> or \<open>null\<close> throws.
\<close>

definition at_index :: "'a list \<Rightarrow> string \<Rightarrow> 'a option" where
  "at_index xs k = map_option (\<lambda>i. xs ! i) (find (\<lambda>i. string_of_nat i = k) [0..<length xs])"

fun getprop :: "js \<Rightarrow> string \<Rightarrow> js" where
  "getprop (Obj kvs) k = (case map_of kvs k of Some v \<Rightarrow> v | None \<Rightarrow> Undefined)"
| "getprop (Arr xs) k =
     (if k = ''length'' then Num (Fin (of_nat (length xs)))
      else case at_index xs k of Some v \<Rightarrow> v | None \<Rightarrow> Undefined)"
| "getprop (Str s) k =
     (if k = ''length'' then Num (Fin (of_nat (length s)))
      else case at_index s k of Some c \<Rightarrow> Str [c] | None \<Rightarrow> Undefined)"
| "getprop v k = Undefined"

fun get :: "js \<Rightarrow> string \<Rightarrow> exn + js" where
  "get Undefined k = Inl (TypeError ''Cannot read properties of undefined'')"
| "get Null k = Inl (TypeError ''Cannot read properties of null'')"
| "get v k = Inr (getprop v k)"

text \<open>\<open>Object.keys(x)\<close>\<close>

fun keys_of :: "js \<Rightarrow> exn + string list" where
  "keys_of Undefined = Inl (TypeError ''Cannot convert undefined or null to object'')"
| "keys_of Null = Inl (TypeError ''Cannot convert undefined or null to object'')"
| "keys_of (Obj kvs) = Inr (remdups (map fst kvs))"
| "keys_of (Arr xs) = Inr (map string_of_nat [0..<length xs])"
| "keys_of (Str s) = Inr (map string_of_nat [0..<length s])"
| "keys_of v = Inr []"

subsection \<open>Numbers\<close>

definition expo :: "rat \<Rightarrow> int" where
  "expo x = (if 1 \<le> \<bar>x\<bar> then bitlen \<lfloor>\<bar>x\<bar>\<rfloor> - 1 else - bitlen (\<lceil>1 / \<bar>x\<bar>\<rceil> - 1))"

definition rne :: "rat \<Rightarrow> int" where
  "rne x = (let f = \<lfloor>x\<rfloor>; r = x - of_int f in
     if r < 1 / 2 then f else if 1 / 2 < r then f + 1 else if even f then f else f + 1)"

definition pow2 :: "int \<Rightarrow> rat" where
  "pow2 k = (if 0 \<le> k then 2 ^ nat k else 1 / 2 ^ nat (- k))"

text \<open>
  Rounding to a double: \<open>expo x\<close> is the binary exponent of \<open>x\<close>
  (\<open>2 ^ expo x \<le> \<bar>x\<bar> < 2 ^ (expo x + 1)\<close>), the significand keeps 53 bits.
\<close>

definition fl :: "rat \<Rightarrow> rat" where
  "fl x = (if x = 0 then 0 else let u = pow2 (expo x - 52) in of_int (rne (x / u)) * u)"

text \<open>A decimal literal of the source denotes the double nearest to it.\<close>

definition lit :: "rat \<Rightarrow> number" where
  "lit q = Fin (fl q)"


fun n_mul :: "number \<Rightarrow> number \<Rightarrow> number" where
  "n_mul (Fin a) (Fin b) = Fin (fl (a * b))"
| "n_mul a b = NaN"

fun n_add :: "number \<Rightarrow> number \<Rightarrow> number" where
  "n_add (Fin a) (Fin b) = Fin (fl (a + b))"
| "n_add a b = NaN"

text \<open>
  Division by zero gives an infinity or \<open>NaN\<close> in JavaScript; the program divides by the
  literal 100 and by the elasticity of its table only, and the model gives \<open>NaN\<close>.
\<close>

fun n_div :: "number \<Rightarrow> number \<Rightarrow> number" where
  "n_div (Fin a) (Fin b) = (if b = 0 then NaN else Fin (fl (a / b)))"
| "n_div a b = NaN"

text \<open>
  The conversions of the language that parse text or call \<open>valueOf\<close> and \<open>toString\<close>
  are parameters: \<open>StringToNumber\<close> is \<open>Number(s)\<close> on a string, \<open>ObjectToNumber\<close> is
  \<open>Number(x)\<close> on an array or object (it throws when the object has no usable
  \<open>valueOf\<close> or \<open>toString\<close>), \<open>parseFloatString\<close> and \<open>parseFloatObject\<close> are
  \<open>parseFloat\<close> on a string and on an array or object.
\<close>

record builtins =
  StringToNumber :: "string \<Rightarrow> number"
  ObjectToNumber :: "js \<Rightarrow> exn + number"
  parseFloatString :: "string \<Rightarrow> number"
  parseFloatObject :: "js \<Rightarrow> exn + number"

fun ToNumber :: "builtins \<Rightarrow> js \<Rightarrow> exn + number" where
  "ToNumber B Undefined = Inr NaN"
| "ToNumber B Null = Inr (Fin 0)"
| "ToNumber B (Bool b) = Inr (Fin (if b then 1 else 0))"
| "ToNumber B (Num n) = Inr n"
| "ToNumber B (Str s) = Inr (StringToNumber B s)"
| "ToNumber B v = ObjectToNumber B v"

fun parseFloat :: "builtins \<Rightarrow> js \<Rightarrow> exn + number" where
  "parseFloat B (Num n) = Inr n"
| "parseFloat B (Str s) = Inr (parseFloatString B s)"
| "parseFloat B (Arr xs) = parseFloatObject B (Arr xs)"
| "parseFloat B (Obj kvs) = parseFloatObject B (Obj kvs)"
| "parseFloat B v = Inr NaN"

text \<open>\<open>a * b\<close>, \<open>a > 0\<close> and \<open>isNaN(k)\<close> on a string\<close>

definition js_mul :: "builtins \<Rightarrow> js \<Rightarrow> number \<Rightarrow> exn + js" where
  "js_mul B a m = bnd (ToNumber B a) (\<lambda>x. Inr (Num (n_mul x m)))"

definition js_gt0 :: "builtins \<Rightarrow> js \<Rightarrow> exn + bool" where
  "js_gt0 B a = bnd (ToNumber B a) (\<lambda>x. Inr (case x of NaN \<Rightarrow> False | Fin q \<Rightarrow> 0 < q))"

definition isNaN :: "builtins \<Rightarrow> string \<Rightarrow> bool" where
  "isNaN B k = (StringToNumber B k = NaN)"

section \<open>server.js: the cache\<close>

record cache_item =
  data :: js
  timestamp :: int

type_synonym cache = "string \<rightharpoonup> cache_item"

definition CACHE_TTL :: int where
  "CACHE_TTL = 5 * 60 * 1000"

text \<open>
  \<open>getCached(key)\<close> at the reading \<open>now\<close> of \<open>Date.now()\<close>, in milliseconds. The map is
  returned with the result: the function leaves it as it is.
\<close>

definition getCached :: "string \<Rightarrow> int \<Rightarrow> cache \<Rightarrow> js \<times> cache" where
  "getCached key now c =
     (case c key of
        None \<Rightarrow> (Null, c)
      | Some item \<Rightarrow> if now - timestamp item < CACHE_TTL then (data item, c) else (Null, c))"

definition setCache :: "string \<Rightarrow> js \<Rightarrow> int \<Rightarrow> cache \<Rightarrow> cache" where
  "setCache key d now c = c(key \<mapsto> \<lparr>data = d, timestamp = now\<rparr>)"

section \<open>server.js: the source adapters\<close>

text \<open>
  \<open>process.env\<close> holds the two credentials; a missing or empty one is falsy.
\<close>

record env =
  EIA_API_KEY :: "string option"
  FRED_API_KEY :: "string option"

definition configured :: "string option \<Rightarrow> bool" where
  "configured k = (case k of None \<Rightarrow> False | Some s \<Rightarrow> s \<noteq> [])"

text \<open>
  What the outside answers during one adapter call: \<open>fetch url\<close> is the outcome of
  \<open>await fetch(url)\<close> (\<open>Inl\<close> a rejected promise) and, inside it, of
  \<open>await response.json()\<close> (\<open>Inl\<close> a body that does not parse); \<open>now_read\<close> and
  \<open>now_write\<close> are the readings of \<open>Date.now()\<close> in \<open>getCached\<close> and \<open>setCache\<close>;
  \<open>toISOString\<close> is \<open>new Date().toISOString()\<close> and \<open>getFullYear\<close> is
  \<open>new Date().getFullYear().toString()\<close>.
\<close>

record io =
  fetch :: "string \<Rightarrow> exn + (exn + js)"
  now_read :: int
  now_write :: int
  toISOString :: string
  getFullYear :: string

text \<open>The server's state: the cache, and the URLs of the outbound calls issued so far.\<close>

record server =
  cache :: cache
  requests :: "string list"

text \<open>\<open>{ value, date, source }\<close>\<close>

definition point :: "js \<Rightarrow> js \<Rightarrow> string \<Rightarrow> js" where
  "point v d s = Obj [(''value'', v), (''date'', d), (''source'', Str s)]"

text \<open>\<open>new Date().toISOString().split('T')[0]\<close>\<close>

definition date_part :: "string \<Rightarrow> string" where
  "date_part t = takeWhile (\<lambda>c. c \<noteq> CHR ''T'') t"

text \<open>
  The body that the four adapters share after a cache miss:
  \<open>try { response = await fetch(url); data = await response.json();
  if (...) { result = ...; setCache(cacheKey, result); return result; } }
  catch (error) { console.error(...) } return null\<close>.
  \<open>read\<close> is the adapter's own \<open>if\<close>: \<open>Some result\<close> when its condition holds.
\<close>

definition try_fetch ::
  "io \<Rightarrow> string \<Rightarrow> string \<Rightarrow> (js \<Rightarrow> exn + js option) \<Rightarrow> server \<Rightarrow> (exn + js) \<times> server" where
  "try_fetch W url cacheKey read st =
     (let st1 = st\<lparr>requests := requests st @ [url]\<rparr> in
      case bnd (fetch W url) (\<lambda>response. bnd response read) of
        Inl error \<Rightarrow> (Inr Null, st1)
      | Inr None \<Rightarrow> (Inr Null, st1)
      | Inr (Some result) \<Rightarrow>
          (Inr result, st1\<lparr>cache := setCache cacheKey result (now_write W) (cache st1)\<rparr>))"

definition endpoints :: "(string \<times> string) list" where
  "endpoints =
     [(''PET.RWTC.D'', ''petroleum/pri/spt/data/?frequency=daily&data[0]=value&facets[series][]=RWTC&sort[0][column]=period&sort[0][direction]=desc&length=1''),
      (''NG.RNGWHHD.D'', ''natural-gas/pri/sum/data/?frequency=daily&data[0]=value&facets[process][]=PNG&sort[0][column]=period&sort[0][direction]=desc&length=1''),
      (''COAL.PRICE'', ''coal/markets/data/?frequency=weekly&data[0]=price&sort[0][column]=period&sort[0][direction]=desc&length=1'')]"

definition eia_read :: "builtins \<Rightarrow> js \<Rightarrow> exn + js option" where
  "eia_read B d =
     bnd (get d ''response'') (\<lambda>response. if \<not> truthy response then Inr None else
     bnd (get response ''data'') (\<lambda>rows. if \<not> truthy rows then Inr None else
     bnd (get rows ''length'') (\<lambda>n.
     bnd (js_gt0 B n) (\<lambda>nonempty. if \<not> nonempty then Inr None else
     bnd (get rows ''0'') (\<lambda>row.
     bnd (get row ''value'') (\<lambda>v.
     bnd (parseFloat B v) (\<lambda>x.
     bnd (get row ''period'') (\<lambda>period.
       Inr (Some (point (Num x) period ''EIA''))))))))))"

definition fetchEIAData :: "env \<Rightarrow> builtins \<Rightarrow> io \<Rightarrow> string \<Rightarrow> server \<Rightarrow> (exn + js) \<times> server" where
  "fetchEIAData E B W series st =
     (case EIA_API_KEY E of
        None \<Rightarrow> (Inr Null, st)
      | Some key \<Rightarrow>
          if key = [] then (Inr Null, st)
          else
            let cacheKey = ''eia_'' @ series;
                (cached, c) = getCached cacheKey (now_read W) (cache st);
                st0 = st\<lparr>cache := c\<rparr>
            in if truthy cached then (Inr cached, st0)
               else case map_of endpoints series of
                      None \<Rightarrow> (Inr Null, st0)
                    | Some endpoint \<Rightarrow>
                        try_fetch W (''https://api.eia.gov/v2/'' @ endpoint @ ''&api_key='' @ key)
                          cacheKey (eia_read B) st0)"

definition fred_read :: "builtins \<Rightarrow> js \<Rightarrow> exn + js option" where
  "fred_read B d =
     bnd (get d ''observations'') (\<lambda>observations. if \<not> truthy observations then Inr None else
     bnd (get observations ''length'') (\<lambda>n.
     bnd (js_gt0 B n) (\<lambda>nonempty. if \<not> nonempty then Inr None else
     bnd (get observations ''0'') (\<lambda>obs.
     bnd (get obs ''value'') (\<lambda>v.
     bnd (parseFloat B v) (\<lambda>x.
     bnd (get obs ''date'') (\<lambda>date.
       Inr (Some (point (Num x) date ''FRED'')))))))))"

definition fetchFREDData :: "env \<Rightarrow> builtins \<Rightarrow> io \<Rightarrow> string \<Rightarrow> server \<Rightarrow> (exn + js) \<times> server" where
  "fetchFREDData E B W series st =
     (case FRED_API_KEY E of
        None \<Rightarrow> (Inr Null, st)
      | Some key \<Rightarrow>
          if key = [] then (Inr Null, st)
          else
            let cacheKey = ''fred_'' @ series;
                (cached, c) = getCached cacheKey (now_read W) (cache st);
                st0 = st\<lparr>cache := c\<rparr>
            in if truthy cached then (Inr cached, st0)
               else try_fetch W
                      (''https://api.stlouisfed.org/fred/series/observations?series_id='' @ series
                         @ ''&api_key='' @ key @ ''&file_type=json&sort_order=desc&limit=1'')
                      cacheKey (fred_read B) st0)"

text \<open>
  \<open>Object.keys(data.USA).filter(k => !isNaN(k)).sort().reverse()\<close>: the default sort
  orders strings by their code units, which is the lexicographic order of \<open>string\<close>;
  \<open>years[0]\<close> is \<open>undefined\<close> when no key is left.
\<close>

definition latest_year :: "builtins \<Rightarrow> string list \<Rightarrow> js" where
  "latest_year B ks =
     (case rev (sort (filter (\<lambda>k. \<not> isNaN B k) ks)) of [] \<Rightarrow> Undefined | y # ys \<Rightarrow> Str y)"

text \<open>A value used as a property key: \<open>x[latestYear]\<close>.\<close>

fun property_key :: "js \<Rightarrow> string" where
  "property_key (Str s) = s"
| "property_key v = ''undefined''"

definition owid_read :: "builtins \<Rightarrow> io \<Rightarrow> js \<Rightarrow> exn + js option" where
  "owid_read B W d =
     bnd (get d ''USA'') (\<lambda>usa. if \<not> truthy usa then Inr None else
     bnd (keys_of usa) (\<lambda>ks.
     let latestYear = latest_year B ks in
     bnd (get usa (property_key latestYear)) (\<lambda>of_year.
     let usaData = js_or of_year usa in
     bnd (get usaData ''solar_electricity'') (\<lambda>solar.
     bnd (get usaData ''wind_electricity'') (\<lambda>wind.
     bnd (get usaData ''nuclear_electricity'') (\<lambda>nuclear.
       Inr (Some (Obj
         [(''solar_lcoe'', js_or solar (Num (Fin 28))),
          (''wind_lcoe'', js_or wind (Num (Fin 31))),
          (''nuclear_lcoe'', js_or nuclear (Num (Fin 33))),
          (''date'', js_or latestYear (Str (getFullYear W))),
          (''source'', Str ''Our World in Data'')]))))))))"

definition owid_url :: string where
  "owid_url = ''https://raw.githubusercontent.com/owid/energy-data/master/owid-energy-data.json''"

definition fetchOWIDData :: "builtins \<Rightarrow> io \<Rightarrow> string \<Rightarrow> server \<Rightarrow> (exn + js) \<times> server" where
  "fetchOWIDData B W indicator st =
     (let cacheKey = ''owid_'' @ indicator;
          (cached, c) = getCached cacheKey (now_read W) (cache st);
          st0 = st\<lparr>cache := c\<rparr>
      in if truthy cached then (Inr cached, st0)
         else try_fetch W owid_url cacheKey (owid_read B W) st0)"

definition yahoo_read :: "io \<Rightarrow> js \<Rightarrow> exn + js option" where
  "yahoo_read W d =
     bnd (get d ''chart'') (\<lambda>chart. if \<not> truthy chart then Inr None else
     bnd (get chart ''result'') (\<lambda>result. if \<not> truthy result then Inr None else
     bnd (get result ''0'') (\<lambda>first. if \<not> truthy first then Inr None else
     bnd (get first ''meta'') (\<lambda>quote.
     bnd (get quote ''regularMarketPrice'') (\<lambda>price.
       Inr (Some (point price (Str (date_part (toISOString W))) ''Yahoo Finance'')))))))"

definition fetchYahooFinance :: "io \<Rightarrow> string \<Rightarrow> server \<Rightarrow> (exn + js) \<times> server" where
  "fetchYahooFinance W symbol st =
     (let cacheKey = ''yahoo_'' @ symbol;
          (cached, c) = getCached cacheKey (now_read W) (cache st);
          st0 = st\<lparr>cache := c\<rparr>
      in if truthy cached then (Inr cached, st0)
         else try_fetch W
                (''https://query1.finance.yahoo.com/v8/finance/chart/'' @ symbol @ ''?interval=1d&range=1d'')
                cacheKey (yahoo_read W) st0)"

section \<open>server.js: the fallback table and the price handler\<close>

text \<open>
  The tables of both files are object literals read with a key of the request. They are
  association lists here: a key that names a member of \<open>Object.prototype\<close>
  (\<open>constructor\<close>, \<open>toString\<close>, ...) is outside the model.
\<close>

definition fallbackPrices :: "(string \<times> number \<times> number \<times> string \<times> string) list" where
  "fallbackPrices =
     [(''oil'', lit (745 / 10), lit (788 / 10), ''/barrel'', ''/barrel''),
      (''natural-gas'', lit (315 / 100), lit (124 / 10), ''/MMBtu'', ''/MMBtu''),
      (''nuclear'', Fin 31, Fin 35, ''/MWh'', ''/MWh''),
      (''solar'', Fin 28, Fin 32, ''/MWh'', ''/MWh''),
      (''renewables'', Fin 31, Fin 36, ''/MWh'', ''/MWh''),
      (''coal'', Fin 140, Fin 120, ''/short ton'', ''/metric ton'')]"

text \<open>
  The object \<open>getFallbackData\<close> returns. Spreading \<open>fallbackPrices[source]\<close> copies the
  four fields of the entry, or nothing when there is no entry: the fields are then
  \<open>undefined\<close>.
\<close>

record fallback =
  fb_us :: js
  fb_world :: js
  usUnit :: js
  worldUnit :: js
  fb_date :: string
  fb_source :: string
  fb_isFallback :: bool

definition getFallbackData :: "string \<Rightarrow> string \<Rightarrow> fallback" where
  "getFallbackData iso_now source =
     (let now = date_part iso_now in
      case map_of fallbackPrices source of
        Some (u, w, uu, wu) \<Rightarrow>
          \<lparr>fb_us = Num u, fb_world = Num w, usUnit = Str uu, worldUnit = Str wu,
           fb_date = now, fb_source = ''Estimated (API keys not configured)'',
           fb_isFallback = True\<rparr>
      | None \<Rightarrow>
          \<lparr>fb_us = Undefined, fb_world = Undefined, usUnit = Undefined, worldUnit = Undefined,
           fb_date = now, fb_source = ''Estimated (API keys not configured)'',
           fb_isFallback = True\<rparr>)"

text \<open>
  The handler of \<open>GET /api/prices/:source\<close>. \<open>adapters\<close> gives the outcome of each
  \<open>await fetch...Data(series)\<close> of the request: the handler calls an adapter at most once
  with a given argument. \<open>Inl\<close> is a rejected promise, which the handler's \<open>catch\<close>
  receives.
\<close>

record adapters =
  callEIA :: "string \<Rightarrow> exn + js"
  callFRED :: "string \<Rightarrow> exn + js"
  callOWID :: "string \<Rightarrow> exn + js"
  callYahoo :: "string \<Rightarrow> exn + js"

record price_point =
  p_value :: js
  p_date :: js
  p_source :: js

text \<open>\<open>let usPrice = null; let worldPrice = null; let sources = [];\<close>\<close>

record slots =
  usPrice :: "price_point option"
  worldPrice :: "price_point option"
  sources :: "string list"

definition no_slots :: slots where
  "no_slots = \<lparr>usPrice = None, worldPrice = None, sources = []\<rparr>"

text \<open>\<open>{ value: x.value, date: x.date, source: x.source }\<close>\<close>

definition copy_point :: "js \<Rightarrow> exn + price_point" where
  "copy_point x =
     bnd (get x ''value'') (\<lambda>v.
     bnd (get x ''date'') (\<lambda>d.
     bnd (get x ''source'') (\<lambda>s.
       Inr \<lparr>p_value = v, p_date = d, p_source = s\<rparr>)))"

text \<open>\<open>usPrice = {...x}; sources.push(tag)\<close> and the same for \<open>worldPrice\<close>\<close>

definition set_us :: "js \<Rightarrow> string \<Rightarrow> slots \<Rightarrow> exn + slots" where
  "set_us x tag s = bnd (copy_point x) (\<lambda>p. Inr (s\<lparr>usPrice := Some p, sources := sources s @ [tag]\<rparr>))"

definition set_world :: "js \<Rightarrow> string \<Rightarrow> slots \<Rightarrow> exn + slots" where
  "set_world x tag s = bnd (copy_point x) (\<lambda>p. Inr (s\<lparr>worldPrice := Some p, sources := sources s @ [tag]\<rparr>))"

text \<open>
  The body of the three OWID cases: both slots from the field \<open>lcoe\<close> of the OWID result,
  the world value multiplied by the markup.
\<close>

definition set_owid :: "builtins \<Rightarrow> js \<Rightarrow> string \<Rightarrow> number \<Rightarrow> slots \<Rightarrow> exn + slots" where
  "set_owid B x lcoe markup s =
     bnd (get x lcoe) (\<lambda>v.
     bnd (get x ''date'') (\<lambda>d.
     bnd (get x ''source'') (\<lambda>src.
     bnd (js_mul B v markup) (\<lambda>w.
       Inr (s\<lparr>usPrice := Some \<lparr>p_value = v, p_date = d, p_source = src\<rparr>,
              worldPrice := Some \<lparr>p_value = w, p_date = d, p_source = src\<rparr>,
              sources := sources s @ [''Our World in Data'']\<rparr>)))))"

text \<open>The \<open>switch (source)\<close>.\<close>

definition resolve :: "builtins \<Rightarrow> adapters \<Rightarrow> string \<Rightarrow> exn + slots" where
  "resolve B A source =
     (if source = ''oil'' then
        bnd (callEIA A ''PET.RWTC.D'') (\<lambda>eiaOil.
        bnd (callYahoo A ''CL=F'') (\<lambda>yahooOil.
        bnd (callYahoo A ''BZ=F'') (\<lambda>yahooBrent.
        bnd (if truthy eiaOil then set_us eiaOil ''EIA'' no_slots
             else if truthy yahooOil then set_us yahooOil ''Yahoo Finance'' no_slots
             else Inr no_slots) (\<lambda>s.
        if truthy yahooBrent then set_world yahooBrent ''Yahoo Finance (Brent)'' s else Inr s))))
      else if source = ''natural-gas'' then
        bnd (callEIA A ''NG.RNGWHHD.D'') (\<lambda>eiaNatGas.
        bnd (callYahoo A ''NG=F'') (\<lambda>yahooNatGas.
        bnd (if truthy eiaNatGas then set_us eiaNatGas ''EIA'' no_slots
             else if truthy yahooNatGas then set_us yahooNatGas ''Yahoo Finance'' no_slots
             else Inr no_slots) (\<lambda>s.
        case usPrice s of
          None \<Rightarrow> Inr s
        | Some u \<Rightarrow>
            bnd (js_mul B (p_value u) (lit (35 / 10))) (\<lambda>w.
              Inr (s\<lparr>worldPrice := Some \<lparr>p_value = w, p_date = p_date u,
                                          p_source = Str ''Calculated from US price''\<rparr>\<rparr>)))))
      else if source = ''nuclear'' then
        bnd (callOWID A ''nuclear'') (\<lambda>owidNuclear.
        bnd (callFRED A ''PURANUSDM'') (\<lambda>fredUranium.
        bnd (if truthy owidNuclear then set_owid B owidNuclear ''nuclear_lcoe'' (lit (11 / 10)) no_slots
             else Inr no_slots) (\<lambda>s.
        Inr (if truthy fredUranium then s\<lparr>sources := sources s @ [''FRED'']\<rparr> else s))))
      else if source = ''solar'' then
        bnd (callOWID A ''solar'') (\<lambda>owidSolar.
        if truthy owidSolar then set_owid B owidSolar ''solar_lcoe'' (lit (115 / 100)) no_slots
        else Inr no_slots)
      else if source = ''renewables'' then
        bnd (callOWID A ''wind'') (\<lambda>owidWind.
        if truthy owidWind then set_owid B owidWind ''wind_lcoe'' (lit (115 / 100)) no_slots
        else Inr no_slots)
      else if source = ''coal'' then
        bnd (callEIA A ''COAL.PRICE'') (\<lambda>eiaCoal.
        bnd (callYahoo A ''MTF=F'') (\<lambda>yahooCoal.
        bnd (if truthy eiaCoal then set_us eiaCoal ''EIA'' no_slots else Inr no_slots) (\<lambda>s.
        if truthy yahooCoal then set_world yahooCoal ''Yahoo Finance'' s else Inr s)))
      else Inr no_slots)"

record response =
  r_source :: string
  r_timestamp :: string
  us :: price_point
  world :: price_point
  units_us :: js
  units_world :: js
  dataSources :: "string list"
  isFallback :: bool
  r_error :: "string option"

text \<open>
  The response: \<open>t_fallback\<close> and \<open>t_response\<close> are the readings of
  \<open>new Date().toISOString()\<close> in \<open>getFallbackData\<close> and for the \<open>timestamp\<close> field.
\<close>

definition prices :: "builtins \<Rightarrow> adapters \<Rightarrow> string \<Rightarrow> string \<Rightarrow> string \<Rightarrow> response" where
  "prices B A t_fallback t_response source =
     (let fallback = getFallbackData t_fallback source in
      case resolve B A source of
        Inr s \<Rightarrow>
          \<lparr>r_source = source,
           r_timestamp = t_response,
           us = (case usPrice s of
                   Some p \<Rightarrow> p
                 | None \<Rightarrow> \<lparr>p_value = fb_us fallback, p_date = Str (fb_date fallback),
                             p_source = Str (fb_source fallback)\<rparr>),
           world = (case worldPrice s of
                      Some p \<Rightarrow> p
                    | None \<Rightarrow> \<lparr>p_value = fb_world fallback, p_date = Str (fb_date fallback),
                                p_source = Str (fb_source fallback)\<rparr>),
           units_us = usUnit fallback,
           units_world = worldUnit fallback,
           dataSources = (if length (sources s) > 0 then sources s else [''Fallback estimates'']),
           isFallback = (usPrice s = None \<and> worldPrice s = None),
           r_error = None\<rparr>
      | Inl error \<Rightarrow>
          \<lparr>r_source = source,
           r_timestamp = t_response,
           us = \<lparr>p_value = fb_us fallback, p_date = Str (fb_date fallback), p_source = Str ''Fallback''\<rparr>,
           world = \<lparr>p_value = fb_world fallback, p_date = Str (fb_date fallback), p_source = Str ''Fallback''\<rparr>,
           units_us = usUnit fallback,
           units_world = worldUnit fallback,
           dataSources = [''Fallback estimates''],
           isFallback = True,
           r_error = Some (message error)\<rparr>)"

section \<open>The client: fallback display and projection\<close>

definition client_fallbackPrices :: "(string \<times> number \<times> number) list" where
  "client_fallbackPrices =
     [(''oil'', lit (745 / 10), lit (788 / 10)),
      (''natural-gas'', lit (315 / 100), lit (124 / 10)),
      (''nuclear'', Fin 31, Fin 35),
      (''solar'', Fin 28, Fin 32),
      (''renewables'', Fin 31, Fin 36),
      (''coal'', Fin 140, Fin 120)]"

text \<open>
  \<open>updateWithFallbackData(source)\<close>: the \<open>us\<close> and \<open>world\<close> entries of the
  \<open>fallbackData\<close> it hands to \<open>updatePriceDisplay\<close>, with \<open>now\<close> the formatted date
  (\<open>p_value\<close> is the field the client names \<open>price\<close>);
  \<open>fallbackPrices[source] || fallbackPrices.oil\<close>.
\<close>

definition updateWithFallbackData :: "string \<Rightarrow> string \<Rightarrow> price_point \<times> price_point" where
  "updateWithFallbackData now source =
     (let prices = (case map_of client_fallbackPrices source of
                      Some e \<Rightarrow> e
                    | None \<Rightarrow> (lit (745 / 10), lit (788 / 10)))
      in (\<lparr>p_value = Num (fst prices), p_date = Str now, p_source = Str ''Fallback''\<rparr>,
          \<lparr>p_value = Num (snd prices), p_date = Str now, p_source = Str ''Fallback''\<rparr>))"

text \<open>\<open>CONFIG.sources\<close>: the elasticity of each commodity.\<close>

definition CONFIG_elasticity :: "(string \<times> number) list" where
  "CONFIG_elasticity =
     [(''oil'', lit (4 / 10)),
      (''natural-gas'', lit (25 / 100)),
      (''nuclear'', lit (15 / 100)),
      (''solar'', lit (1 / 10)),
      (''renewables'', lit (12 / 100)),
      (''coal'', lit (35 / 100))]"

definition factors :: "(string \<times> number) list" where
  "factors =
     [(''oil'', lit (12 / 10)),
      (''natural-gas'', lit (11 / 10)),
      (''nuclear'', lit (8 / 10)),
      (''solar'', lit (6 / 10)),
      (''renewables'', lit (7 / 10)),
      (''coal'', Fin 1)]"

text \<open>\<open>factors[source] || 1.0\<close>\<close>

definition getSupplyConstraintFactor :: "string \<Rightarrow> number" where
  "getSupplyConstraintFactor source =
     (case map_of factors source of
        Some f \<Rightarrow> if truthy (Num f) then f else Fin 1
      | None \<Rightarrow> Fin 1)"

text \<open>
  The two formulas of \<open>calculateProjection\<close>:
  \<open>(usageIncrease / 100) * (1 / elasticity) * supplyConstraintFactor * 100\<close> and
  \<open>currentPrice * (1 + priceIncrease / 100)\<close>, each operation rounded as JavaScript
  rounds it.
\<close>

definition priceIncrease_formula :: "number \<Rightarrow> number \<Rightarrow> number \<Rightarrow> number" where
  "priceIncrease_formula usageIncrease elasticity supplyConstraintFactor =
     n_mul (n_mul (n_mul (n_div usageIncrease (Fin 100)) (n_div (Fin 1) elasticity))
              supplyConstraintFactor) (Fin 100)"

definition newPrice_formula :: "number \<Rightarrow> number \<Rightarrow> number" where
  "newPrice_formula currentPrice priceIncrease =
     n_mul currentPrice (n_add (Fin 1) (n_div priceIncrease (Fin 100)))"

record projection =
  currentPrice :: number
  usageIncrease :: number
  priceIncrease :: number
  newPrice :: number

text \<open>
  \<open>calculateProjection(region)\<close> on the client's state: \<open>currentSource\<close> (\<open>null\<close> or the
  key), \<open>currentData\<close>, and the text \<open>input\<close> of the usage field. \<open>None\<close> is the early
  return after an \<open>alert\<close>; the result is the numeric part of \<open>projectionData\<close>, the
  updates of the page are left out. Reading \<open>elasticity\<close> of a missing configuration
  throws.
\<close>

definition calculateProjection ::
  "builtins \<Rightarrow> js \<Rightarrow> js \<Rightarrow> string \<Rightarrow> string \<Rightarrow> exn + projection option" where
  "calculateProjection B currentSource currentData region input =
     (if \<not> truthy currentSource then Inr None
      else if \<not> truthy currentData then Inr None
      else
        bnd (get currentData region) (\<lambda>entry. if \<not> truthy entry then Inr None else
        bnd (get entry ''price'') (\<lambda>price. if \<not> truthy price then Inr None else
        let sourceConfig = map_of CONFIG_elasticity (property_key currentSource);
            usageIncrease = (let x = parseFloatString B input in if truthy (Num x) then x else Fin 0)
        in
        bnd (parseFloat B price) (\<lambda>currentPrice.
        bnd (case sourceConfig of
               None \<Rightarrow> Inl (TypeError ''Cannot read properties of undefined'')
             | Some e \<Rightarrow> Inr e) (\<lambda>elasticity.
        let supplyConstraintFactor = getSupplyConstraintFactor (property_key currentSource);
            priceIncrease = priceIncrease_formula usageIncrease elasticity supplyConstraintFactor;
            newPrice = newPrice_formula currentPrice priceIncrease
        in Inr (Some \<lparr>currentPrice = currentPrice, usageIncrease = usageIncrease,
                       priceIncrease = priceIncrease, newPrice = newPrice\<rparr>))))))"

section \<open>Vocabulary of the properties and example inputs\<close>

text \<open>
  The outcomes of the adapter calls that the handler awaits for a key, in the order of
  the calls.
\<close>

definition consulted :: "adapters \<Rightarrow> string \<Rightarrow> (exn + js) list" where
  "consulted A source =
     (if source = ''oil'' then [callEIA A ''PET.RWTC.D'', callYahoo A ''CL=F'', callYahoo A ''BZ=F'']
      else if source = ''natural-gas'' then [callEIA A ''NG.RNGWHHD.D'', callYahoo A ''NG=F'']
      else if source = ''nuclear'' then [callOWID A ''nuclear'', callFRED A ''PURANUSDM'']
      else if source = ''solar'' then [callOWID A ''solar'']
      else if source = ''renewables'' then [callOWID A ''wind'']
      else if source = ''coal'' then [callEIA A ''COAL.PRICE'', callYahoo A ''MTF=F'']
      else [])"

text \<open>The slot that the handler copies from the result \<open>x\<close> of an adapter.\<close>

abbreviation the_point :: "js \<Rightarrow> price_point" where
  "the_point x \<equiv> \<lparr>p_value = getprop x ''value'', p_date = getprop x ''date'', p_source = getprop x ''source''\<rparr>"

text \<open>
  The outcome of the natural-gas case once the US slot is taken from the result \<open>x\<close>, and
  of an OWID case when the OWID result \<open>x\<close> is there; \<open>extra\<close> is what the case lists
  after \<open>Our World in Data\<close>.
\<close>

definition derived :: "builtins \<Rightarrow> js \<Rightarrow> string \<Rightarrow> exn + slots" where
  "derived B x tag =
     bnd (js_mul B (getprop x ''value'') (lit (35 / 10))) (\<lambda>w. Inr
       \<lparr>usPrice = Some (the_point x),
        worldPrice = Some \<lparr>p_value = w, p_date = getprop x ''date'', p_source = Str ''Calculated from US price''\<rparr>,
        sources = [tag]\<rparr>)"

definition from_owid :: "builtins \<Rightarrow> js \<Rightarrow> string \<Rightarrow> number \<Rightarrow> string list \<Rightarrow> exn + slots" where
  "from_owid B x lcoe m extra =
     bnd (js_mul B (getprop x lcoe) m) (\<lambda>w. Inr
       \<lparr>usPrice = Some \<lparr>p_value = getprop x lcoe, p_date = getprop x ''date'', p_source = getprop x ''source''\<rparr>,
        worldPrice = Some \<lparr>p_value = w, p_date = getprop x ''date'', p_source = getprop x ''source''\<rparr>,
        sources = ''Our World in Data'' # extra\<rparr>)"

text \<open>
  The multiplier by which the handler derives the world price from the US price:
  \<open>3.5\<close> for natural gas, \<open>1.1\<close> for nuclear, \<open>1.15\<close> for solar and renewables.
\<close>

definition multiplier :: "string \<Rightarrow> number" where
  "multiplier source =
     (if source = ''natural-gas'' then lit (35 / 10)
      else if source = ''nuclear'' then lit (11 / 10)
      else lit (115 / 100))"

text \<open>
  Each adapter labels a result with the name of its provider, as the four adapters of
  \<open>server.js\<close> do.
\<close>

definition labelled :: "adapters \<Rightarrow> bool" where
  "labelled A \<longleftrightarrow>
     (\<forall>k x. (callEIA A k = Inr x \<and> truthy x \<longrightarrow> getprop x ''source'' = Str ''EIA'')
          \<and> (callFRED A k = Inr x \<and> truthy x \<longrightarrow> getprop x ''source'' = Str ''FRED'')
          \<and> (callOWID A k = Inr x \<and> truthy x \<longrightarrow> getprop x ''source'' = Str ''Our World in Data'')
          \<and> (callYahoo A k = Inr x \<and> truthy x \<longrightarrow> getprop x ''source'' = Str ''Yahoo Finance''))"

text \<open>
  A slot of the response filled from the fallback table: the table's price \<open>v\<close>, the day
  of the request, and the label of \<open>getFallbackData\<close> or, after a rejected promise, the
  label \<open>Fallback\<close>.
\<close>

definition from_table :: "js \<Rightarrow> string \<Rightarrow> price_point \<Rightarrow> bool" where
  "from_table v day p \<longleftrightarrow>
     p = \<lparr>p_value = v, p_date = Str day, p_source = Str ''Estimated (API keys not configured)''\<rparr>
     \<or> p = \<lparr>p_value = v, p_date = Str day, p_source = Str ''Fallback''\<rparr>"

text \<open>
  What the switch leaves in \<open>usPrice\<close>, \<open>worldPrice\<close> and \<open>sources\<close> when the adapters
  label their results: the label of a filled US slot is one of three and is listed; a
  filled world slot is listed under its label, under \<open>Yahoo Finance (Brent)\<close> for oil, or
  is derived from a filled US slot; every listed name is the label of a filled slot, the
  Brent tag, or \<open>FRED\<close>.
\<close>

definition us_ok :: "slots \<Rightarrow> bool" where
  "us_ok s \<longleftrightarrow> (\<forall>p. usPrice s = Some p \<longrightarrow>
      p_source p \<in> {Str ''EIA'', Str ''Yahoo Finance'', Str ''Our World in Data''}
      \<and> (\<exists>l\<in>set (sources s). Str l = p_source p))"

definition world_ok :: "string \<Rightarrow> slots \<Rightarrow> bool" where
  "world_ok source s \<longleftrightarrow> (\<forall>q. worldPrice s = Some q \<longrightarrow>
      (source = ''oil'' \<and> p_source q = Str ''Yahoo Finance'' \<and> ''Yahoo Finance (Brent)'' \<in> set (sources s))
      \<or> (source = ''coal'' \<and> p_source q = Str ''Yahoo Finance'' \<and> ''Yahoo Finance'' \<in> set (sources s))
      \<or> (source = ''natural-gas'' \<and> p_source q = Str ''Calculated from US price'' \<and> usPrice s \<noteq> None)
      \<or> (p_source q = Str ''Our World in Data'' \<and> ''Our World in Data'' \<in> set (sources s) \<and> usPrice s \<noteq> None))"

definition listed_ok :: "adapters \<Rightarrow> string \<Rightarrow> slots \<Rightarrow> bool" where
  "listed_ok A source s \<longleftrightarrow> (\<forall>l\<in>set (sources s).
      (\<exists>p. usPrice s = Some p \<and> p_source p = Str l)
      \<or> (\<exists>q. worldPrice s = Some q \<and> (p_source q = Str l \<or> (source = ''oil'' \<and> l = ''Yahoo Finance (Brent)'')))
      \<or> (l = ''FRED'' \<and> source = ''nuclear'' \<and> (\<exists>f. callFRED A ''PURANUSDM'' = Inr f \<and> truthy f)))"

text \<open>
  Example inputs. The conversions agree with JavaScript on the strings the examples
  convert: \<open>Number("2020")\<close>, \<open>Number("2021")\<close>, \<open>parseFloat("10")\<close>, \<open>parseFloat("0")\<close>.
\<close>

definition example_builtins :: builtins where
  "example_builtins =
     \<lparr>StringToNumber = (\<lambda>s. if s = ''2020'' then Fin 2020 else if s = ''2021'' then Fin 2021 else NaN),
      ObjectToNumber = (\<lambda>v. Inr NaN),
      parseFloatString = (\<lambda>s. if s = ''10'' then Fin 10 else if s = ''0'' then Fin 0 else NaN),
      parseFloatObject = (\<lambda>v. Inr NaN)\<rparr>"

definition all_absent :: adapters where
  "all_absent =
     \<lparr>callEIA = (\<lambda>series. Inr Null), callFRED = (\<lambda>series. Inr Null),
      callOWID = (\<lambda>indicator. Inr Null), callYahoo = (\<lambda>symbol. Inr Null)\<rparr>"

definition example_time :: string where
  "example_time = ''2024-01-15T10:00:00.000Z''"

text \<open>
  Adapter outcomes of one request: EIA alone answers for natural gas; OWID alone answers;
  FRED alone answers; Yahoo answers for the Brent symbol alone.
\<close>

definition eia_gas :: adapters where
  "eia_gas = all_absent
     \<lparr>callEIA := (\<lambda>series. if series = ''NG.RNGWHHD.D''
                   then Inr (point (Num (Fin 3)) (Str ''2024-01-12'') ''EIA'') else Inr Null)\<rparr>"

definition owid_live :: adapters where
  "owid_live = all_absent
     \<lparr>callOWID := (\<lambda>indicator. Inr (Obj
        [(''solar_lcoe'', Num (Fin 28)), (''wind_lcoe'', Num (Fin 31)), (''nuclear_lcoe'', Num (Fin 33)),
         (''date'', Str ''2023''), (''source'', Str ''Our World in Data'')]))\<rparr>"

definition fred_only :: adapters where
  "fred_only = all_absent
     \<lparr>callFRED := (\<lambda>series. Inr (point (Num (Fin 50)) (Str ''2024-01-01'') ''FRED''))\<rparr>"

definition brent_only :: adapters where
  "brent_only = all_absent
     \<lparr>callYahoo := (\<lambda>symbol. if symbol = ''BZ=F''
                     then Inr (point (Num (Fin 80)) (Str ''2024-01-15'') ''Yahoo Finance'') else Inr Null)\<rparr>"

text \<open>
  Credentials missing and present; an outside that gives every outbound call the same
  answer; a server that has cached nothing; an OWID payload whose latest year has a
  solar value of zero and no nuclear value.
\<close>

definition no_keys :: env where
  "no_keys = \<lparr>EIA_API_KEY = None, FRED_API_KEY = Some []\<rparr>"

definition with_keys :: env where
  "with_keys = \<lparr>EIA_API_KEY = Some ''eia-key'', FRED_API_KEY = Some ''fred-key''\<rparr>"

definition answering :: "exn + (exn + js) \<Rightarrow> io" where
  "answering r =
     \<lparr>fetch = (\<lambda>url. r), now_read = 1000, now_write = 1001,
      toISOString = example_time, getFullYear = ''2024''\<rparr>"

definition fresh_server :: server where
  "fresh_server = \<lparr>cache = Map.empty, requests = []\<rparr>"

definition owid_payload :: js where
  "owid_payload = Obj
     [(''USA'', Obj
        [(''iso_code'', Str ''USA''),
         (''2020'', Obj [(''solar_electricity'', Num (Fin 131)), (''wind_electricity'', Num (Fin 338)),
                        (''nuclear_electricity'', Num (Fin 790))]),
         (''2021'', Obj [(''solar_electricity'', Num (Fin 0)), (''wind_electricity'', Num (Fin 380))])])]"

section \<open>Auxiliary facts\<close>

lemma bnd_Inl [simp]: "bnd (Inl e) f = Inl e"
  by (simp add: bnd_def)

lemma bnd_Inr [simp]: "bnd (Inr x) f = f x"
  by (simp add: bnd_def)

lemma bnd_eq_Inr: "bnd m f = Inr y \<longleftrightarrow> (\<exists>x. m = Inr x \<and> f x = Inr y)"
  by (cases m) simp_all

lemma get_truthy: "truthy x \<Longrightarrow> get x k = Inr (getprop x k)"
  by (cases x) simp_all

lemma no_slots_simps [simp]:
  "usPrice no_slots = None" "worldPrice no_slots = None" "sources no_slots = []"
  by (simp_all add: no_slots_def)

lemma source_cases:
  obtains (oil) "source = ''oil''" | (gas) "source = ''natural-gas''" | (nuclear) "source = ''nuclear''"
  | (solar) "source = ''solar''" | (renewables) "source = ''renewables''" | (coal) "source = ''coal''"
  | (other) "source \<noteq> ''oil''" "source \<noteq> ''natural-gas''" "source \<noteq> ''nuclear''"
      "source \<noteq> ''solar''" "source \<noteq> ''renewables''" "source \<noteq> ''coal''"
  by blast

lemma date_part_example: "date_part example_time = ''2024-01-15''"
  by (simp add: date_part_def example_time_def)

lemma copy_point_truthy: "truthy x \<Longrightarrow> copy_point x = Inr (the_point x)"
  by (simp add: copy_point_def get_truthy)

lemma set_us_truthy:
  "truthy x \<Longrightarrow> set_us x tag s = Inr (s\<lparr>usPrice := Some (the_point x), sources := sources s @ [tag]\<rparr>)"
  by (simp add: set_us_def copy_point_truthy)

lemma set_world_truthy:
  "truthy x \<Longrightarrow> set_world x tag s = Inr (s\<lparr>worldPrice := Some (the_point x), sources := sources s @ [tag]\<rparr>)"
  by (simp add: set_world_def copy_point_truthy)

lemma set_owid_truthy:
  "truthy x \<Longrightarrow> set_owid B x lcoe m s =
     bnd (js_mul B (getprop x lcoe) m) (\<lambda>w.
       Inr (s\<lparr>usPrice := Some \<lparr>p_value = getprop x lcoe, p_date = getprop x ''date'', p_source = getprop x ''source''\<rparr>,
              worldPrice := Some \<lparr>p_value = w, p_date = getprop x ''date'', p_source = getprop x ''source''\<rparr>,
              sources := sources s @ [''Our World in Data'']\<rparr>))"
  by (simp add: set_owid_def get_truthy)

lemma fallback_fields [simp]:
  "fb_date (getFallbackData t source) = date_part t"
  "fb_source (getFallbackData t source) = ''Estimated (API keys not configured)''"
  by (simp_all add: getFallbackData_def Let_def split: option.splits prod.splits)

lemma getCached_same [simp]: "snd (getCached k now c) = c"
  by (simp add: getCached_def split: option.splits)

lemma fresh_miss [simp]: "getCached k now Map.empty = (Null, Map.empty)"
  by (simp add: getCached_def)

lemma string_of_nat_0 [simp]: "string_of_nat 0 = ''0''"
  by (simp add: string_of_nat.simps)

lemma keys_of_truthy: "truthy x \<Longrightarrow> \<exists>ks. keys_of x = Inr ks"
  by (cases x) simp_all

lemma js_or_truthy: "truthy b \<Longrightarrow> truthy (js_or a b)"
  by (simp add: js_or_def)

lemma fl_0 [simp]: "fl 0 = 0"
  by (simp add: fl_def)

lemma fl_1 [simp]: "fl 1 = 1"
  by code_simp

text \<open>
  The rounding on well-known values: the double of 0.1; \<open>0.1 + 0.2\<close> is not the double
  of 0.3; above \<open>2^53\<close> odd integers round to even neighbours.
\<close>

lemma fl_examples:
  "fl (1 / 10) = 3602879701896397 / 2 ^ 55"
  "fl (fl (1 / 10) + fl (2 / 10)) = 5404319552844596 / 2 ^ 54"
  "fl (3 / 10) = 5404319552844595 / 2 ^ 54"
  "fl (2 ^ 53 + 1) = 2 ^ 53"
  "fl (2 ^ 53 + 3) = 2 ^ 53 + 4"
  by code_simp+

section \<open>Properties of the price handler\<close>

lemma resolve_oil:
  assumes "callEIA A ''PET.RWTC.D'' = Inr e" "callYahoo A ''CL=F'' = Inr y" "callYahoo A ''BZ=F'' = Inr b"
  shows "resolve B A ''oil'' = Inr
     \<lparr>usPrice = (if truthy e then Some (the_point e) else if truthy y then Some (the_point y) else None),
      worldPrice = (if truthy b then Some (the_point b) else None),
      sources = (if truthy e then [''EIA''] else if truthy y then [''Yahoo Finance''] else [])
        @ (if truthy b then [''Yahoo Finance (Brent)''] else [])\<rparr>"
  using assms by (simp add: resolve_def set_us_truthy set_world_truthy no_slots_def)

lemma resolve_coal:
  assumes "callEIA A ''COAL.PRICE'' = Inr e" "callYahoo A ''MTF=F'' = Inr y"
  shows "resolve B A ''coal'' = Inr
     \<lparr>usPrice = (if truthy e then Some (the_point e) else None),
      worldPrice = (if truthy y then Some (the_point y) else None),
      sources = (if truthy e then [''EIA''] else []) @ (if truthy y then [''Yahoo Finance''] else [])\<rparr>"
  using assms by (simp add: resolve_def set_us_truthy set_world_truthy no_slots_def)

lemma resolve_gas:
  assumes "callEIA A ''NG.RNGWHHD.D'' = Inr e" "callYahoo A ''NG=F'' = Inr y"
  shows "resolve B A ''natural-gas'' =
     (if truthy e then derived B e ''EIA''
      else if truthy y then derived B y ''Yahoo Finance''
      else Inr no_slots)"
  using assms by (simp add: resolve_def set_us_truthy no_slots_def derived_def)

lemma resolve_nuclear:
  assumes "callOWID A ''nuclear'' = Inr x" "callFRED A ''PURANUSDM'' = Inr f"
  shows "resolve B A ''nuclear'' =
     (if truthy x then from_owid B x ''nuclear_lcoe'' (lit (11 / 10)) (if truthy f then [''FRED''] else [])
      else Inr \<lparr>usPrice = None, worldPrice = None, sources = (if truthy f then [''FRED''] else [])\<rparr>)"
  using assms
  by (cases "js_mul B (getprop x ''nuclear_lcoe'') (lit (11 / 10))")
    (simp_all add: resolve_def set_owid_truthy no_slots_def from_owid_def)

lemma resolve_solar:
  assumes "callOWID A ''solar'' = Inr x"
  shows "resolve B A ''solar'' =
     (if truthy x then from_owid B x ''solar_lcoe'' (lit (115 / 100)) [] else Inr no_slots)"
  using assms by (simp add: resolve_def set_owid_truthy no_slots_def from_owid_def)

lemma resolve_renewables:
  assumes "callOWID A ''wind'' = Inr x"
  shows "resolve B A ''renewables'' =
     (if truthy x then from_owid B x ''wind_lcoe'' (lit (115 / 100)) [] else Inr no_slots)"
  using assms by (simp add: resolve_def set_owid_truthy no_slots_def from_owid_def)

lemma resolve_other:
  assumes "source \<noteq> ''oil''" "source \<noteq> ''natural-gas''" "source \<noteq> ''nuclear''"
      "source \<noteq> ''solar''" "source \<noteq> ''renewables''" "source \<noteq> ''coal''"
  shows "resolve B A source = Inr no_slots"
  using assms by (simp add: resolve_def)

lemma resolve_calls:
  assumes "resolve B A source = Inr s"
  shows "\<forall>r\<in>set (consulted A source). \<exists>x. r = Inr x"
proof (cases source rule: source_cases)
  case oil
  with assms show ?thesis by (auto simp: resolve_def consulted_def bnd_eq_Inr)
next
  case gas
  with assms show ?thesis by (auto simp: resolve_def consulted_def bnd_eq_Inr)
next
  case nuclear
  with assms show ?thesis by (auto simp: resolve_def consulted_def bnd_eq_Inr)
next
  case solar
  with assms show ?thesis by (auto simp: resolve_def consulted_def bnd_eq_Inr)
next
  case renewables
  with assms show ?thesis by (auto simp: resolve_def consulted_def bnd_eq_Inr)
next
  case coal
  with assms show ?thesis by (auto simp: resolve_def consulted_def bnd_eq_Inr)
next
  case other
  then show ?thesis by (simp add: consulted_def)
qed

lemma prices_resolved:
  assumes "resolve B A source = Inr s"
  shows "us (prices B A t1 t2 source) =
           (case usPrice s of Some p \<Rightarrow> p
            | None \<Rightarrow> \<lparr>p_value = fb_us (getFallbackData t1 source),
                        p_date = Str (fb_date (getFallbackData t1 source)),
                        p_source = Str (fb_source (getFallbackData t1 source))\<rparr>)"
    and "world (prices B A t1 t2 source) =
           (case worldPrice s of Some p \<Rightarrow> p
            | None \<Rightarrow> \<lparr>p_value = fb_world (getFallbackData t1 source),
                        p_date = Str (fb_date (getFallbackData t1 source)),
                        p_source = Str (fb_source (getFallbackData t1 source))\<rparr>)"
    and "dataSources (prices B A t1 t2 source) =
           (if sources s = [] then [''Fallback estimates''] else sources s)"
    and "isFallback (prices B A t1 t2 source) = (usPrice s = None \<and> worldPrice s = None)"
  using assms by (simp_all add: prices_def Let_def)

lemma prices_rejected:
  assumes "resolve B A source = Inl e"
  shows "us (prices B A t1 t2 source) =
           \<lparr>p_value = fb_us (getFallbackData t1 source), p_date = Str (date_part t1), p_source = Str ''Fallback''\<rparr>"
    and "world (prices B A t1 t2 source) =
           \<lparr>p_value = fb_world (getFallbackData t1 source), p_date = Str (date_part t1), p_source = Str ''Fallback''\<rparr>"
    and "dataSources (prices B A t1 t2 source) = [''Fallback estimates'']"
    and "isFallback (prices B A t1 t2 source)"
  using assms by (simp_all add: prices_def Let_def)

lemma resolve_absent:
  assumes "\<forall>r\<in>set (consulted A source). r = Inr Null"
  shows "resolve B A source = Inr no_slots"
proof (cases source rule: source_cases)
  case oil
  with assms show ?thesis by (simp add: resolve_def consulted_def)
next
  case gas
  with assms show ?thesis by (simp add: resolve_def consulted_def)
next
  case nuclear
  with assms show ?thesis by (simp add: resolve_def consulted_def)
next
  case solar
  with assms show ?thesis by (simp add: resolve_def consulted_def)
next
  case renewables
  with assms show ?thesis by (simp add: resolve_def consulted_def)
next
  case coal
  with assms show ?thesis by (simp add: resolve_def consulted_def)
next
  case other
  then show ?thesis by (simp add: resolve_def)
qed

text \<open>The example requests, resolved.\<close>

lemma three_times_markup:
  "n_mul (Fin 3) (lit (35 / 10)) = Fin (21 / 2)" "n_mul (Fin 3) (lit (7 / 2)) = Fin (21 / 2)"
  by code_simp+

lemma labelled_all_absent: "labelled all_absent"
  by (simp add: labelled_def all_absent_def)

lemma labelled_eia_gas: "labelled eia_gas"
  by (simp add: labelled_def all_absent_def eia_gas_def point_def)

lemma labelled_brent_only: "labelled brent_only"
  by (simp add: labelled_def all_absent_def brent_only_def point_def)

lemma labelled_owid_live: "labelled owid_live"
  by (simp add: labelled_def all_absent_def owid_live_def)

lemma labelled_fred_only: "labelled fred_only"
  by (simp add: labelled_def all_absent_def fred_only_def point_def)

lemma resolve_eia_gas:
  "resolve B eia_gas ''natural-gas'' = Inr
     \<lparr>usPrice = Some \<lparr>p_value = Num (Fin 3), p_date = Str ''2024-01-12'', p_source = Str ''EIA''\<rparr>,
      worldPrice = Some \<lparr>p_value = Num (Fin (21 / 2)), p_date = Str ''2024-01-12'',
                         p_source = Str ''Calculated from US price''\<rparr>,
      sources = [''EIA'']\<rparr>"
proof -
  have c: "callEIA eia_gas ''NG.RNGWHHD.D'' = Inr (point (Num (Fin 3)) (Str ''2024-01-12'') ''EIA'')"
    "callYahoo eia_gas ''NG=F'' = Inr Null"
    by (simp_all add: eia_gas_def all_absent_def)
  show ?thesis
    unfolding resolve_gas [OF c]
    by (simp add: point_def derived_def js_mul_def three_times_markup)
qed

lemma resolve_owid_live:
  "resolve B owid_live ''nuclear'' = Inr
     \<lparr>usPrice = Some \<lparr>p_value = Num (Fin 33), p_date = Str ''2023'', p_source = Str ''Our World in Data''\<rparr>,
      worldPrice = Some \<lparr>p_value = Num (n_mul (Fin 33) (lit (11 / 10))), p_date = Str ''2023'',
                         p_source = Str ''Our World in Data''\<rparr>,
      sources = [''Our World in Data'']\<rparr>"
proof -
  have c: "callOWID owid_live ''nuclear'' = Inr (Obj
        [(''solar_lcoe'', Num (Fin 28)), (''wind_lcoe'', Num (Fin 31)), (''nuclear_lcoe'', Num (Fin 33)),
         (''date'', Str ''2023''), (''source'', Str ''Our World in Data'')])"
    "callFRED owid_live ''PURANUSDM'' = Inr Null"
    by (simp_all add: owid_live_def all_absent_def)
  show ?thesis
    unfolding resolve_nuclear [OF c]
    by (simp add: from_owid_def js_mul_def)
qed

lemma resolve_fred_only:
  "resolve B fred_only ''nuclear'' = Inr \<lparr>usPrice = None, worldPrice = None, sources = [''FRED'']\<rparr>"
proof -
  have c: "callOWID fred_only ''nuclear'' = Inr Null"
    "callFRED fred_only ''PURANUSDM'' = Inr (point (Num (Fin 50)) (Str ''2024-01-01'') ''FRED'')"
    by (simp_all add: fred_only_def all_absent_def)
  show ?thesis
    unfolding resolve_nuclear [OF c]
    by (simp add: point_def)
qed

lemma resolve_brent_only:
  "resolve B brent_only ''oil'' = Inr
     \<lparr>usPrice = None,
      worldPrice = Some \<lparr>p_value = Num (Fin 80), p_date = Str ''2024-01-15'', p_source = Str ''Yahoo Finance''\<rparr>,
      sources = [''Yahoo Finance (Brent)'']\<rparr>"
proof -
  have c: "callEIA brent_only ''PET.RWTC.D'' = Inr Null" "callYahoo brent_only ''CL=F'' = Inr Null"
    "callYahoo brent_only ''BZ=F'' = Inr (point (Num (Fin 80)) (Str ''2024-01-15'') ''Yahoo Finance'')"
    by (simp_all add: brent_only_def all_absent_def)
  show ?thesis
    unfolding resolve_oil [OF c]
    by (simp add: point_def)
qed

lemma resolve_all_absent: "resolve B all_absent source = Inr no_slots"
  by (rule resolve_absent) (simp add: consulted_def all_absent_def)

lemma fallback_oil:
  "fb_us (getFallbackData t ''oil'') = Num (lit (745 / 10))"
  "fb_world (getFallbackData t ''oil'') = Num (lit (788 / 10))"
  by (simp_all add: getFallbackData_def fallbackPrices_def)

lemma fallback_nuclear:
  "fb_us (getFallbackData t ''nuclear'') = Num (Fin 31)"
  "fb_world (getFallbackData t ''nuclear'') = Num (Fin 35)"
  by (simp_all add: getFallbackData_def fallbackPrices_def)

text \<open>
  C1, as the handler has it. For a key of the fallback table, when every adapter the
  handler consults for the key returns \<open>null\<close>, the quote has \<open>isFallback = true\<close> and its
  \<open>us\<close> and \<open>world\<close> slots hold the two prices of the table's entry for the key, dated
  with the day of the request; each slot carries the source label
  \<open>Estimated (API keys not configured)\<close> of \<open>getFallbackData\<close>. (The label \<open>Fallback\<close>
  is written by the handler's \<open>catch\<close> only.)
\<close>

theorem all_absent_fallback:
  assumes "map_of fallbackPrices source = Some (u, w, uu, wu)"
    and "\<forall>r\<in>set (consulted A source). r = Inr Null"
  shows "isFallback (prices B A t1 t2 source)
    \<and> us (prices B A t1 t2 source) =
        \<lparr>p_value = Num u, p_date = Str (date_part t1),
         p_source = Str ''Estimated (API keys not configured)''\<rparr>
    \<and> world (prices B A t1 t2 source) =
        \<lparr>p_value = Num w, p_date = Str (date_part t1),
         p_source = Str ''Estimated (API keys not configured)''\<rparr>"
  using assms(1) resolve_absent [OF assms(2), of B]
  by (simp add: prices_def getFallbackData_def)

theorem all_absent_fallback_witness:
  "consulted all_absent ''oil'' = [Inr Null, Inr Null, Inr Null]
   \<and> isFallback (prices example_builtins all_absent example_time example_time ''oil'')
   \<and> us (prices example_builtins all_absent example_time example_time ''oil'') =
        \<lparr>p_value = Num (lit (745 / 10)), p_date = Str ''2024-01-15'',
         p_source = Str ''Estimated (API keys not configured)''\<rparr>
   \<and> world (prices example_builtins all_absent example_time example_time ''oil'') =
        \<lparr>p_value = Num (lit (788 / 10)), p_date = Str ''2024-01-15'',
         p_source = Str ''Estimated (API keys not configured)''\<rparr>"
  using all_absent_fallback [of "''oil''" "lit (745 / 10)" "lit (788 / 10)" "''/barrel''" "''/barrel''"
      all_absent example_builtins example_time example_time]
  by (simp add: fallbackPrices_def consulted_def all_absent_def date_part_example)

text \<open>
  C1 as stated fails on the label: with the three oil calls returning \<open>null\<close>, the slots
  are labelled \<open>Estimated (API keys not configured)\<close>, not \<open>Fallback\<close>.
\<close>

theorem all_absent_label_counterexample:
  "consulted all_absent ''oil'' = [Inr Null, Inr Null, Inr Null]
   \<and> isFallback (prices example_builtins all_absent example_time example_time ''oil'')
   \<and> p_source (us (prices example_builtins all_absent example_time example_time ''oil''))
       = Str ''Estimated (API keys not configured)''
   \<and> p_source (us (prices example_builtins all_absent example_time example_time ''oil''))
       \<noteq> Str ''Fallback''
   \<and> p_source (world (prices example_builtins all_absent example_time example_time ''oil''))
       \<noteq> Str ''Fallback''"
  by (simp add: consulted_def all_absent_def prices_def resolve_def getFallbackData_def
      fallbackPrices_def)

text \<open>
  C5 on the server. For the key \<open>hydrogen\<close>, which the fallback table does not have,
  \<open>getFallbackData\<close> supplies no prices and no units: the quote's two values and two
  units are \<open>undefined\<close>. The client's \<open>updateWithFallbackData\<close> substitutes the oil
  entry for the same key.
\<close>

theorem unrecognized_key_undefined:
  "map_of fallbackPrices ''hydrogen'' = None
   \<and> us (prices example_builtins all_absent example_time example_time ''hydrogen'') =
       \<lparr>p_value = Undefined, p_date = Str ''2024-01-15'',
        p_source = Str ''Estimated (API keys not configured)''\<rparr>
   \<and> world (prices example_builtins all_absent example_time example_time ''hydrogen'') =
       \<lparr>p_value = Undefined, p_date = Str ''2024-01-15'',
        p_source = Str ''Estimated (API keys not configured)''\<rparr>
   \<and> units_us (prices example_builtins all_absent example_time example_time ''hydrogen'') = Undefined
   \<and> units_world (prices example_builtins all_absent example_time example_time ''hydrogen'') = Undefined
   \<and> updateWithFallbackData ''Jan 15, 2024'' ''hydrogen'' =
       (\<lparr>p_value = Num (lit (745 / 10)), p_date = Str ''Jan 15, 2024'', p_source = Str ''Fallback''\<rparr>,
        \<lparr>p_value = Num (lit (788 / 10)), p_date = Str ''Jan 15, 2024'', p_source = Str ''Fallback''\<rparr>)"
proof -
  have t: "map_of fallbackPrices ''hydrogen'' = None"
    by (simp add: fallbackPrices_def)
  have f: "getFallbackData example_time ''hydrogen'' =
      \<lparr>fb_us = Undefined, fb_world = Undefined, usUnit = Undefined, worldUnit = Undefined,
       fb_date = ''2024-01-15'', fb_source = ''Estimated (API keys not configured)'',
       fb_isFallback = True\<rparr>"
    by (simp add: getFallbackData_def t date_part_example)
  have r: "resolve example_builtins all_absent ''hydrogen'' = Inr no_slots"
    by (simp add: resolve_def)
  have c: "updateWithFallbackData ''Jan 15, 2024'' ''hydrogen'' =
       (\<lparr>p_value = Num (lit (745 / 10)), p_date = Str ''Jan 15, 2024'', p_source = Str ''Fallback''\<rparr>,
        \<lparr>p_value = Num (lit (788 / 10)), p_date = Str ''Jan 15, 2024'', p_source = Str ''Fallback''\<rparr>)"
    by (simp add: updateWithFallbackData_def client_fallbackPrices_def)
  show ?thesis
    by (simp add: t c prices_def r f)
qed

lemma derived_slots:
  assumes "source \<in> {''natural-gas'', ''nuclear'', ''solar'', ''renewables''}"
    and "resolve B A source = Inr s" and "usPrice s = Some u"
  shows "\<exists>w. worldPrice s = Some w
     \<and> js_mul B (p_value u) (multiplier source) = Inr (p_value w)
     \<and> p_date w = p_date u
     \<and> p_source w = (if source = ''natural-gas'' then Str ''Calculated from US price'' else p_source u)"
proof -
  note calls = resolve_calls [OF assms(2)]
  from assms(1) consider (gas) "source = ''natural-gas''" | (nuclear) "source = ''nuclear''"
    | (solar) "source = ''solar''" | (renewables) "source = ''renewables''"
    by blast
  then show ?thesis
  proof cases
    case gas
    from calls gas obtain e y where c: "callEIA A ''NG.RNGWHHD.D'' = Inr e" "callYahoo A ''NG=F'' = Inr y"
      by (auto simp: consulted_def)
    from assms(2,3) show ?thesis
      unfolding gas resolve_gas [OF c]
      by (auto simp: derived_def bnd_eq_Inr multiplier_def split: if_splits)
  next
    case nuclear
    from calls nuclear obtain x f where c: "callOWID A ''nuclear'' = Inr x" "callFRED A ''PURANUSDM'' = Inr f"
      by (auto simp: consulted_def)
    from assms(2,3) show ?thesis
      unfolding nuclear resolve_nuclear [OF c]
      by (auto simp: from_owid_def bnd_eq_Inr multiplier_def split: if_splits)
  next
    case solar
    from calls solar obtain x where c: "callOWID A ''solar'' = Inr x"
      by (auto simp: consulted_def)
    from assms(2,3) show ?thesis
      unfolding solar resolve_solar [OF c]
      by (auto simp: from_owid_def bnd_eq_Inr multiplier_def split: if_splits)
  next
    case renewables
    from calls renewables obtain x where c: "callOWID A ''wind'' = Inr x"
      by (auto simp: consulted_def)
    from assms(2,3) show ?thesis
      unfolding renewables resolve_renewables [OF c]
      by (auto simp: from_owid_def bnd_eq_Inr multiplier_def split: if_splits)
  qed
qed

text \<open>
  C3, as the handler has it. For natural gas, nuclear, solar and renewables, whenever the
  US slot resolves, the world slot is there, its value is the US value times the fixed
  multiplier (\<open>3.5\<close> for natural gas, \<open>1.1\<close> for nuclear, \<open>1.15\<close> for solar and
  renewables) and it carries the US date. Its source label is \<open>Calculated from US price\<close>
  for natural gas; for nuclear, solar and renewables it is the label of the US slot, that
  of the OWID result.
\<close>

theorem derived_world_price:
  assumes "source \<in> {''natural-gas'', ''nuclear'', ''solar'', ''renewables''}"
    and "resolve B A source = Inr s" and "usPrice s = Some u"
  shows "us (prices B A t1 t2 source) = u
     \<and> js_mul B (p_value u) (multiplier source) = Inr (p_value (world (prices B A t1 t2 source)))
     \<and> (\<forall>x. p_value u = Num x \<longrightarrow>
          p_value (world (prices B A t1 t2 source)) = Num (n_mul x (multiplier source)))
     \<and> p_date (world (prices B A t1 t2 source)) = p_date u
     \<and> p_source (world (prices B A t1 t2 source)) =
         (if source = ''natural-gas'' then Str ''Calculated from US price'' else p_source u)"
proof -
  from derived_slots [OF assms] obtain w where w: "worldPrice s = Some w"
    "js_mul B (p_value u) (multiplier source) = Inr (p_value w)"
    "p_date w = p_date u"
    "p_source w = (if source = ''natural-gas'' then Str ''Calculated from US price'' else p_source u)"
    by blast
  have "us (prices B A t1 t2 source) = u" "world (prices B A t1 t2 source) = w"
    using prices_resolved(1,2) [OF assms(2)] assms(3) w(1) by simp_all
  moreover have "\<forall>x. p_value u = Num x \<longrightarrow> p_value w = Num (n_mul x (multiplier source))"
    using w(2) by (auto simp: js_mul_def)
  ultimately show ?thesis using w by simp
qed

theorem derived_world_price_witness:
  "resolve example_builtins eia_gas ''natural-gas'' = Inr
     \<lparr>usPrice = Some \<lparr>p_value = Num (Fin 3), p_date = Str ''2024-01-12'', p_source = Str ''EIA''\<rparr>,
      worldPrice = Some \<lparr>p_value = Num (Fin (21 / 2)), p_date = Str ''2024-01-12'',
                         p_source = Str ''Calculated from US price''\<rparr>,
      sources = [''EIA'']\<rparr>
   \<and> us (prices example_builtins eia_gas example_time example_time ''natural-gas'') =
       \<lparr>p_value = Num (Fin 3), p_date = Str ''2024-01-12'', p_source = Str ''EIA''\<rparr>
   \<and> p_value (world (prices example_builtins eia_gas example_time example_time ''natural-gas''))
       = Num (Fin (21 / 2))
   \<and> p_date (world (prices example_builtins eia_gas example_time example_time ''natural-gas''))
       = Str ''2024-01-12''
   \<and> p_source (world (prices example_builtins eia_gas example_time example_time ''natural-gas''))
       = Str ''Calculated from US price''"
  using derived_world_price [OF _ resolve_eia_gas, of
      "\<lparr>p_value = Num (Fin 3), p_date = Str ''2024-01-12'', p_source = Str ''EIA''\<rparr>"
      example_builtins example_time example_time]
  by (simp add: resolve_eia_gas multiplier_def three_times_markup)

text \<open>
  C3 as stated fails on the label for nuclear, solar and renewables: with an OWID result
  the nuclear world slot is labelled \<open>Our World in Data\<close>.
\<close>

theorem derived_label_counterexample:
  "us (prices example_builtins owid_live example_time example_time ''nuclear'') =
       \<lparr>p_value = Num (Fin 33), p_date = Str ''2023'', p_source = Str ''Our World in Data''\<rparr>
   \<and> world (prices example_builtins owid_live example_time example_time ''nuclear'') =
       \<lparr>p_value = Num (n_mul (Fin 33) (lit (11 / 10))), p_date = Str ''2023'',
        p_source = Str ''Our World in Data''\<rparr>
   \<and> p_source (world (prices example_builtins owid_live example_time example_time ''nuclear''))
       \<noteq> Str ''Calculated from US price''"
  by (simp add: prices_resolved(1,2) [OF resolve_owid_live])

lemma labelledD:
  assumes "labelled A"
  shows "callEIA A k = Inr x \<Longrightarrow> truthy x \<Longrightarrow> getprop x ''source'' = Str ''EIA''"
    and "callFRED A k = Inr x \<Longrightarrow> truthy x \<Longrightarrow> getprop x ''source'' = Str ''FRED''"
    and "callOWID A k = Inr x \<Longrightarrow> truthy x \<Longrightarrow> getprop x ''source'' = Str ''Our World in Data''"
    and "callYahoo A k = Inr x \<Longrightarrow> truthy x \<Longrightarrow> getprop x ''source'' = Str ''Yahoo Finance''"
  using assms unfolding labelled_def by blast+

lemma slot_labels:
  assumes "labelled A" and "resolve B A source = Inr s"
  shows "us_ok s \<and> world_ok source s \<and> listed_ok A source s"
proof -
  note calls = resolve_calls [OF assms(2)]
  note L = labelledD [OF assms(1)]
  show ?thesis
  proof (cases source rule: source_cases)
    case oil
    from calls oil obtain e y b where c: "callEIA A ''PET.RWTC.D'' = Inr e"
      "callYahoo A ''CL=F'' = Inr y" "callYahoo A ''BZ=F'' = Inr b"
      by (auto simp: consulted_def)
    from assms(2) have s: "s = \<lparr>usPrice = (if truthy e then Some (the_point e) else if truthy y then Some (the_point y) else None),
      worldPrice = (if truthy b then Some (the_point b) else None),
      sources = (if truthy e then [''EIA''] else if truthy y then [''Yahoo Finance''] else [])
        @ (if truthy b then [''Yahoo Finance (Brent)''] else [])\<rparr>"
      unfolding oil resolve_oil [OF c] by simp
    show ?thesis
      unfolding us_ok_def world_ok_def listed_ok_def
      using L(1) [OF c(1)] L(4) [OF c(2)] L(4) [OF c(3)] oil
      by (simp add: s)
  next
    case gas
    from calls gas obtain e y where c: "callEIA A ''NG.RNGWHHD.D'' = Inr e" "callYahoo A ''NG=F'' = Inr y"
      by (auto simp: consulted_def)
    from assms(2) show ?thesis
      unfolding gas resolve_gas [OF c] us_ok_def world_ok_def listed_ok_def
      using L(1) [OF c(1)] L(4) [OF c(2)]
      by (auto simp: derived_def bnd_eq_Inr split: if_splits)
  next
    case nuclear
    from calls nuclear obtain x f where c: "callOWID A ''nuclear'' = Inr x" "callFRED A ''PURANUSDM'' = Inr f"
      by (auto simp: consulted_def)
    from assms(2) show ?thesis
      unfolding nuclear resolve_nuclear [OF c] us_ok_def world_ok_def listed_ok_def
      using L(3) [OF c(1)] c(2)
      by (auto simp: from_owid_def bnd_eq_Inr split: if_splits)
  next
    case solar
    from calls solar obtain x where c: "callOWID A ''solar'' = Inr x"
      by (auto simp: consulted_def)
    from assms(2) show ?thesis
      unfolding solar resolve_solar [OF c] us_ok_def world_ok_def listed_ok_def
      using L(3) [OF c(1)]
      by (auto simp: from_owid_def bnd_eq_Inr split: if_splits)
  next
    case renewables
    from calls renewables obtain x where c: "callOWID A ''wind'' = Inr x"
      by (auto simp: consulted_def)
    from assms(2) show ?thesis
      unfolding renewables resolve_renewables [OF c] us_ok_def world_ok_def listed_ok_def
      using L(3) [OF c(1)]
      by (auto simp: from_owid_def bnd_eq_Inr split: if_splits)
  next
    case coal
    from calls coal obtain e y where c: "callEIA A ''COAL.PRICE'' = Inr e" "callYahoo A ''MTF=F'' = Inr y"
      by (auto simp: consulted_def)
    from assms(2) have s: "s = \<lparr>usPrice = (if truthy e then Some (the_point e) else None),
      worldPrice = (if truthy y then Some (the_point y) else None),
      sources = (if truthy e then [''EIA''] else []) @ (if truthy y then [''Yahoo Finance''] else [])\<rparr>"
      unfolding coal resolve_coal [OF c] by simp
    show ?thesis
      unfolding us_ok_def world_ok_def listed_ok_def
      using L(1) [OF c(1)] L(4) [OF c(2)] coal
      by (simp add: s)
  next
    case other
    with assms(2) have "s = no_slots" by (simp add: resolve_other)
    then show ?thesis by (simp add: us_ok_def world_ok_def listed_ok_def)
  qed
qed

lemma from_table_iff:
  assumes "labelled A" and "resolve B A source = Inr s"
  shows "from_table (fb_us (getFallbackData t1 source)) (date_part t1) (us (prices B A t1 t2 source))
           \<longleftrightarrow> usPrice s = None"
    and "from_table (fb_world (getFallbackData t1 source)) (date_part t1) (world (prices B A t1 t2 source))
           \<longleftrightarrow> worldPrice s = None"
proof -
  from slot_labels [OF assms] have ok: "us_ok s" "world_ok source s" by simp_all
  show "from_table (fb_us (getFallbackData t1 source)) (date_part t1) (us (prices B A t1 t2 source))
           \<longleftrightarrow> usPrice s = None"
  proof (cases "usPrice s")
    case None
    then show ?thesis by (simp add: prices_resolved(1) [OF assms(2)] from_table_def)
  next
    case (Some p)
    with ok(1) have "p_source p \<in> {Str ''EIA'', Str ''Yahoo Finance'', Str ''Our World in Data''}"
      by (simp add: us_ok_def)
    with Some show ?thesis
      by (auto simp: prices_resolved(1) [OF assms(2)] from_table_def)
  qed
  show "from_table (fb_world (getFallbackData t1 source)) (date_part t1) (world (prices B A t1 t2 source))
           \<longleftrightarrow> worldPrice s = None"
  proof (cases "worldPrice s")
    case None
    then show ?thesis by (simp add: prices_resolved(2) [OF assms(2)] from_table_def)
  next
    case (Some q)
    with ok(2) have "p_source q \<in> {Str ''Yahoo Finance'', Str ''Calculated from US price'', Str ''Our World in Data''}"
      by (auto simp: world_ok_def)
    with Some show ?thesis
      by (auto simp: prices_resolved(2) [OF assms(2)] from_table_def)
  qed
qed

text \<open>
  C4. With adapters that label their results, the quote has \<open>isFallback = true\<close> exactly
  when both slots are filled from the fallback table. When exactly one slot is, the flag
  is false and \<open>dataSources\<close> names the provider of the other slot: it holds that slot's
  source label or, for the oil world slot, the tag \<open>Yahoo Finance (Brent)\<close> under which
  the handler lists the Brent quote of Yahoo Finance.
\<close>

theorem isFallback_iff_both_from_table:
  assumes "labelled A"
  shows "let r = prices B A t1 t2 source;
             us_table = from_table (fb_us (getFallbackData t1 source)) (date_part t1) (us r);
             world_table = from_table (fb_world (getFallbackData t1 source)) (date_part t1) (world r)
         in (isFallback r \<longleftrightarrow> us_table \<and> world_table)
          \<and> (\<not> us_table \<and> world_table \<longrightarrow>
               \<not> isFallback r \<and> (\<exists>l\<in>set (dataSources r). Str l = p_source (us r)))
          \<and> (us_table \<and> \<not> world_table \<longrightarrow>
               \<not> isFallback r \<and>
               ((\<exists>l\<in>set (dataSources r). Str l = p_source (world r))
                \<or> (source = ''oil'' \<and> p_source (world r) = Str ''Yahoo Finance''
                    \<and> ''Yahoo Finance (Brent)'' \<in> set (dataSources r))))"
proof (cases "resolve B A source")
  case (Inl e)
  show ?thesis
    by (simp add: Let_def prices_rejected [OF Inl] from_table_def)
next
  case (Inr s)
  note ft = from_table_iff [OF assms Inr, of t1 t2]
  from slot_labels [OF assms Inr] have ok: "us_ok s" "world_ok source s" by simp_all
  have fb: "isFallback (prices B A t1 t2 source) \<longleftrightarrow> usPrice s = None \<and> worldPrice s = None"
    by (rule prices_resolved(4) [OF Inr])
  have only_us: "\<exists>l\<in>set (dataSources (prices B A t1 t2 source)). Str l = p_source (us (prices B A t1 t2 source))"
    if "usPrice s \<noteq> None"
    using that ok(1) by (auto simp: us_ok_def prices_resolved(1,3) [OF Inr])
  have only_world: "(\<exists>l\<in>set (dataSources (prices B A t1 t2 source)). Str l = p_source (world (prices B A t1 t2 source)))
      \<or> (source = ''oil'' \<and> p_source (world (prices B A t1 t2 source)) = Str ''Yahoo Finance''
          \<and> ''Yahoo Finance (Brent)'' \<in> set (dataSources (prices B A t1 t2 source)))"
    if "worldPrice s \<noteq> None" "usPrice s = None"
    using that ok(2) by (auto simp: world_ok_def prices_resolved(2,3) [OF Inr])
  show ?thesis
    unfolding Let_def ft fb using only_us only_world by blast
qed

theorem isFallback_iff_both_from_table_witness:
  "labelled brent_only
   \<and> \<not> isFallback (prices example_builtins brent_only example_time example_time ''oil'')
   \<and> us (prices example_builtins brent_only example_time example_time ''oil'') =
       \<lparr>p_value = Num (lit (745 / 10)), p_date = Str ''2024-01-15'',
        p_source = Str ''Estimated (API keys not configured)''\<rparr>
   \<and> world (prices example_builtins brent_only example_time example_time ''oil'') =
       \<lparr>p_value = Num (Fin 80), p_date = Str ''2024-01-15'', p_source = Str ''Yahoo Finance''\<rparr>
   \<and> dataSources (prices example_builtins brent_only example_time example_time ''oil'') =
       [''Yahoo Finance (Brent)'']"
proof -
  note r = prices_resolved [OF resolve_brent_only, of example_builtins example_time example_time]
  have u: "us (prices example_builtins brent_only example_time example_time ''oil'') =
       \<lparr>p_value = Num (lit (745 / 10)), p_date = Str ''2024-01-15'',
        p_source = Str ''Estimated (API keys not configured)''\<rparr>"
    by (simp add: r(1) fallback_oil date_part_example)
  have w: "world (prices example_builtins brent_only example_time example_time ''oil'') =
       \<lparr>p_value = Num (Fin 80), p_date = Str ''2024-01-15'', p_source = Str ''Yahoo Finance''\<rparr>"
    by (simp add: r(2))
  have d: "dataSources (prices example_builtins brent_only example_time example_time ''oil'') =
       [''Yahoo Finance (Brent)'']"
    by (simp add: r(3))
  have "\<not> isFallback (prices example_builtins brent_only example_time example_time ''oil'')"
    using isFallback_iff_both_from_table [OF labelled_brent_only, of example_builtins example_time
        example_time "''oil''"]
    by (simp add: Let_def u w from_table_def fallback_oil date_part_example)
  with labelled_brent_only u w d show ?thesis by simp
qed

text \<open>
  What \<open>dataSources\<close> holds. With adapters that label their results, every name in the
  list is the label of a slot that an adapter filled (\<open>Yahoo Finance (Brent)\<close> for the oil
  world slot), or \<open>Fallback estimates\<close> when both slots come from the fallback table, or
  \<open>FRED\<close>, which only the nuclear case adds, when the FRED call returned a result.
  Conversely the label of every slot that an adapter filled is listed; a world slot
  derived for natural gas is covered by the listed US label.
\<close>

lemma dataSources_contributors:
  assumes "labelled A"
  shows "let r = prices B A t1 t2 source;
             us_table = from_table (fb_us (getFallbackData t1 source)) (date_part t1) (us r);
             world_table = from_table (fb_world (getFallbackData t1 source)) (date_part t1) (world r)
         in (\<forall>l\<in>set (dataSources r).
               (\<not> us_table \<and> Str l = p_source (us r))
             \<or> (\<not> world_table \<and> (Str l = p_source (world r) \<or> (source = ''oil'' \<and> l = ''Yahoo Finance (Brent)'')))
             \<or> (l = ''Fallback estimates'' \<and> us_table \<and> world_table)
             \<or> (l = ''FRED'' \<and> source = ''nuclear'' \<and> (\<exists>f. callFRED A ''PURANUSDM'' = Inr f \<and> truthy f)))
          \<and> (\<not> us_table \<longrightarrow> (\<exists>l\<in>set (dataSources r). Str l = p_source (us r)))
          \<and> (\<not> world_table \<longrightarrow>
               (\<exists>l\<in>set (dataSources r). Str l = p_source (world r))
               \<or> (source = ''oil'' \<and> ''Yahoo Finance (Brent)'' \<in> set (dataSources r))
               \<or> (source = ''natural-gas'' \<and> p_source (world r) = Str ''Calculated from US price''
                   \<and> \<not> us_table))"
proof (cases "resolve B A source")
  case (Inl e)
  show ?thesis
    by (simp add: Let_def prices_rejected [OF Inl] from_table_def)
next
  case (Inr s)
  note ft = from_table_iff [OF assms Inr, of t1 t2]
  from slot_labels [OF assms Inr] have ok: "us_ok s" "world_ok source s" "listed_ok A source s"
    by simp_all
  have empty: "usPrice s = None \<and> worldPrice s = None" if "sources s = []"
    using that ok(1,2) by (auto simp: us_ok_def world_ok_def)
  have listed: "\<forall>l\<in>set (dataSources (prices B A t1 t2 source)).
         (usPrice s \<noteq> None \<and> Str l = p_source (us (prices B A t1 t2 source)))
       \<or> (worldPrice s \<noteq> None \<and> (Str l = p_source (world (prices B A t1 t2 source))
            \<or> (source = ''oil'' \<and> l = ''Yahoo Finance (Brent)'')))
       \<or> (l = ''Fallback estimates'' \<and> usPrice s = None \<and> worldPrice s = None)
       \<or> (l = ''FRED'' \<and> source = ''nuclear'' \<and> (\<exists>f. callFRED A ''PURANUSDM'' = Inr f \<and> truthy f))"
  proof (cases "sources s = []")
    case True
    with empty show ?thesis by (simp add: prices_resolved(3) [OF Inr])
  next
    case False
    then have ds: "dataSources (prices B A t1 t2 source) = sources s"
      by (simp add: prices_resolved(3) [OF Inr])
    show ?thesis
      unfolding ds
    proof
      fix l
      assume "l \<in> set (sources s)"
      with ok(3) consider (u) p where "usPrice s = Some p" "p_source p = Str l"
        | (w) q where "worldPrice s = Some q"
            "p_source q = Str l \<or> (source = ''oil'' \<and> l = ''Yahoo Finance (Brent)'')"
        | (f) "l = ''FRED''" "source = ''nuclear''" "\<exists>f. callFRED A ''PURANUSDM'' = Inr f \<and> truthy f"
        unfolding listed_ok_def by blast
      then show "(usPrice s \<noteq> None \<and> Str l = p_source (us (prices B A t1 t2 source)))
         \<or> (worldPrice s \<noteq> None \<and> (Str l = p_source (world (prices B A t1 t2 source))
              \<or> (source = ''oil'' \<and> l = ''Yahoo Finance (Brent)'')))
         \<or> (l = ''Fallback estimates'' \<and> usPrice s = None \<and> worldPrice s = None)
         \<or> (l = ''FRED'' \<and> source = ''nuclear'' \<and> (\<exists>f. callFRED A ''PURANUSDM'' = Inr f \<and> truthy f))"
      proof cases
        case u
        then show ?thesis by (simp add: prices_resolved(1) [OF Inr])
      next
        case w
        then show ?thesis by (auto simp: prices_resolved(2) [OF Inr])
      next
        case f
        then show ?thesis by simp
      qed
    qed
  qed
  have us_listed: "\<exists>l\<in>set (dataSources (prices B A t1 t2 source)). Str l = p_source (us (prices B A t1 t2 source))"
    if "usPrice s \<noteq> None"
    using that ok(1) by (auto simp: us_ok_def prices_resolved(1,3) [OF Inr])
  have world_listed: "(\<exists>l\<in>set (dataSources (prices B A t1 t2 source)). Str l = p_source (world (prices B A t1 t2 source)))
       \<or> (source = ''oil'' \<and> ''Yahoo Finance (Brent)'' \<in> set (dataSources (prices B A t1 t2 source)))
       \<or> (source = ''natural-gas'' \<and> p_source (world (prices B A t1 t2 source)) = Str ''Calculated from US price''
           \<and> usPrice s \<noteq> None)"
    if "worldPrice s \<noteq> None"
    using that ok(2) by (auto simp: world_ok_def prices_resolved(2,3) [OF Inr])
  show ?thesis
    unfolding Let_def ft
    by (intro conjI impI) (rule listed, erule us_listed, erule world_listed)
qed

text \<open>
  C7 on the nuclear case. The handler awaits the FRED uranium series and uses its result
  for neither slot, yet lists \<open>FRED\<close> whenever that call returned a result. When the FRED
  call alone answers, both slots come from the fallback table, \<open>isFallback\<close> is true and
  \<open>dataSources\<close> is \<open>[FRED]\<close>: a source is listed whose result was not used. The other
  cases list a source only together with the slot it fills.
\<close>

theorem nuclear_lists_unused_FRED:
  "callFRED fred_only ''PURANUSDM'' = Inr (point (Num (Fin 50)) (Str ''2024-01-01'') ''FRED'')
   \<and> dataSources (prices example_builtins fred_only example_time example_time ''nuclear'') = [''FRED'']
   \<and> isFallback (prices example_builtins fred_only example_time example_time ''nuclear'')
   \<and> us (prices example_builtins fred_only example_time example_time ''nuclear'') =
       \<lparr>p_value = Num (Fin 31), p_date = Str ''2024-01-15'',
        p_source = Str ''Estimated (API keys not configured)''\<rparr>
   \<and> world (prices example_builtins fred_only example_time example_time ''nuclear'') =
       \<lparr>p_value = Num (Fin 35), p_date = Str ''2024-01-15'',
        p_source = Str ''Estimated (API keys not configured)''\<rparr>"
proof -
  have c: "callFRED fred_only ''PURANUSDM'' = Inr (point (Num (Fin 50)) (Str ''2024-01-01'') ''FRED'')"
    by (simp add: fred_only_def all_absent_def)
  note r = prices_resolved [OF resolve_fred_only, of example_builtins example_time example_time]
  show ?thesis
    by (simp add: c r fallback_nuclear date_part_example)
qed

section \<open>Properties of the source adapters\<close>

lemma try_fetch_result:
  "\<exists>v. fst (try_fetch W url k read st) = Inr v
       \<and> (v = Null \<or> (\<exists>d. fetch W url = Inr (Inr d) \<and> read d = Inr (Some v)))"
proof (cases "fetch W url")
  case (Inl e)
  then show ?thesis by (simp add: try_fetch_def Let_def)
next
  case (Inr response)
  show ?thesis
  proof (cases response)
    case (Inl e)
    with Inr show ?thesis by (simp add: try_fetch_def Let_def)
  next
    case body: (Inr d)
    show ?thesis
    proof (cases "read d")
      case (Inl e)
      with Inr body show ?thesis by (simp add: try_fetch_def Let_def)
    next
      case read: (Inr r)
      with Inr body show ?thesis by (cases r) (simp_all add: try_fetch_def Let_def)
    qed
  qed
qed

lemma fetchEIAData_result:
  "\<exists>v. fst (fetchEIAData E B W series st) = Inr v
       \<and> (v = Null \<or> v = fst (getCached (''eia_'' @ series) (now_read W) (cache st))
          \<or> (\<exists>url d. fetch W url = Inr (Inr d) \<and> eia_read B d = Inr (Some v)))"
proof (cases "EIA_API_KEY E")
  case None
  then show ?thesis by (simp add: fetchEIAData_def)
next
  case (Some key)
  show ?thesis
  proof (cases "key = [] \<or> truthy (fst (getCached (''eia_'' @ series) (now_read W) (cache st)))
      \<or> map_of endpoints series = None")
    case True
    with Some show ?thesis
      by (auto simp: fetchEIAData_def Let_def split_beta)
  next
    case False
    then obtain endpoint where e: "map_of endpoints series = Some endpoint" by auto
    from try_fetch_result [of W "''https://api.eia.gov/v2/'' @ endpoint @ ''&api_key='' @ key"
        "''eia_'' @ series" "eia_read B" "st\<lparr>cache := snd (getCached (''eia_'' @ series) (now_read W) (cache st))\<rparr>"]
    show ?thesis using Some False e
      by (auto simp: fetchEIAData_def Let_def split_beta)
  qed
qed

lemma fetchFREDData_result:
  "\<exists>v. fst (fetchFREDData E B W series st) = Inr v
       \<and> (v = Null \<or> v = fst (getCached (''fred_'' @ series) (now_read W) (cache st))
          \<or> (\<exists>url d. fetch W url = Inr (Inr d) \<and> fred_read B d = Inr (Some v)))"
proof (cases "FRED_API_KEY E")
  case None
  then show ?thesis by (simp add: fetchFREDData_def)
next
  case (Some key)
  show ?thesis
  proof (cases "key = [] \<or> truthy (fst (getCached (''fred_'' @ series) (now_read W) (cache st)))")
    case True
    with Some show ?thesis
      by (auto simp: fetchFREDData_def Let_def split_beta)
  next
    case False
    from try_fetch_result [of W "''https://api.stlouisfed.org/fred/series/observations?series_id='' @ series
                         @ ''&api_key='' @ key @ ''&file_type=json&sort_order=desc&limit=1''"
        "''fred_'' @ series" "fred_read B" "st\<lparr>cache := snd (getCached (''fred_'' @ series) (now_read W) (cache st))\<rparr>"]
    show ?thesis using Some False
      by (auto simp: fetchFREDData_def Let_def split_beta)
  qed
qed

lemma fetchOWIDData_result:
  "\<exists>v. fst (fetchOWIDData B W indicator st) = Inr v
       \<and> (v = Null \<or> v = fst (getCached (''owid_'' @ indicator) (now_read W) (cache st))
          \<or> (\<exists>url d. fetch W url = Inr (Inr d) \<and> owid_read B W d = Inr (Some v)))"
proof (cases "truthy (fst (getCached (''owid_'' @ indicator) (now_read W) (cache st)))")
  case True
  then show ?thesis
    by (auto simp: fetchOWIDData_def Let_def split_beta)
next
  case False
  from try_fetch_result [of W owid_url "''owid_'' @ indicator" "owid_read B W" "st\<lparr>cache := snd (getCached (''owid_'' @ indicator) (now_read W) (cache st))\<rparr>"]
  show ?thesis using False
    by (auto simp: fetchOWIDData_def Let_def split_beta)
qed

lemma fetchYahooFinance_result:
  "\<exists>v. fst (fetchYahooFinance W symbol st) = Inr v
       \<and> (v = Null \<or> v = fst (getCached (''yahoo_'' @ symbol) (now_read W) (cache st))
          \<or> (\<exists>url d. fetch W url = Inr (Inr d) \<and> yahoo_read W d = Inr (Some v)))"
proof (cases "truthy (fst (getCached (''yahoo_'' @ symbol) (now_read W) (cache st)))")
  case True
  then show ?thesis
    by (auto simp: fetchYahooFinance_def Let_def split_beta)
next
  case False
  from try_fetch_result [of W "''https://query1.finance.yahoo.com/v8/finance/chart/'' @ symbol @ ''?interval=1d&range=1d''"
      "''yahoo_'' @ symbol" "yahoo_read W" "st\<lparr>cache := snd (getCached (''yahoo_'' @ symbol) (now_read W) (cache st))\<rparr>"]
  show ?thesis using False
    by (auto simp: fetchYahooFinance_def Let_def split_beta)
qed

text \<open>A result that an adapter reads from a response carries the label of its provider.\<close>

lemma point_label [simp]: "truthy (point v d s)" "getprop (point v d s) ''source'' = Str s"
  by (simp_all add: point_def)

lemma read_labels:
  "eia_read B d = Inr (Some v) \<Longrightarrow> truthy v \<and> getprop v ''source'' = Str ''EIA''"
  "fred_read B d = Inr (Some v) \<Longrightarrow> truthy v \<and> getprop v ''source'' = Str ''FRED''"
  "owid_read B W d = Inr (Some v) \<Longrightarrow> truthy v \<and> getprop v ''source'' = Str ''Our World in Data''"
  "yahoo_read W d = Inr (Some v) \<Longrightarrow> truthy v \<and> getprop v ''source'' = Str ''Yahoo Finance''"
  by (auto simp: eia_read_def fred_read_def owid_read_def yahoo_read_def bnd_eq_Inr Let_def
      split: if_splits)

lemma no_credential:
  "\<not> configured (EIA_API_KEY E) \<Longrightarrow> fetchEIAData E B W series st = (Inr Null, st)"
  "\<not> configured (FRED_API_KEY E) \<Longrightarrow> fetchFREDData E B W series st = (Inr Null, st)"
  by (simp_all add: configured_def fetchEIAData_def fetchFREDData_def split: option.splits)

text \<open>
  C2. An adapter whose credential is missing or empty returns \<open>null\<close> at once and leaves
  the server as it was: no outbound call is issued. Every adapter call returns a value,
  never an exception; the value is \<open>null\<close> unless it is the fresh cache entry or a
  response arrived, its body parsed and the adapter's reading of it produced the result.
  So a rejected \<open>fetch\<close>, a body that does not parse, an exception while the payload is
  read and a payload without the expected rows all end in \<open>null\<close>.
\<close>

theorem adapters_never_raise:
  "(\<not> configured (EIA_API_KEY E) \<longrightarrow> fetchEIAData E B W series st = (Inr Null, st))
   \<and> (\<not> configured (FRED_API_KEY E) \<longrightarrow> fetchFREDData E B W series st = (Inr Null, st))
   \<and> (\<exists>v. fst (fetchEIAData E B W series st) = Inr v
         \<and> (v = Null \<or> v = fst (getCached (''eia_'' @ series) (now_read W) (cache st))
            \<or> (\<exists>url d. fetch W url = Inr (Inr d) \<and> eia_read B d = Inr (Some v))))
   \<and> (\<exists>v. fst (fetchFREDData E B W series st) = Inr v
         \<and> (v = Null \<or> v = fst (getCached (''fred_'' @ series) (now_read W) (cache st))
            \<or> (\<exists>url d. fetch W url = Inr (Inr d) \<and> fred_read B d = Inr (Some v))))
   \<and> (\<exists>v. fst (fetchOWIDData B W series st) = Inr v
         \<and> (v = Null \<or> v = fst (getCached (''owid_'' @ series) (now_read W) (cache st))
            \<or> (\<exists>url d. fetch W url = Inr (Inr d) \<and> owid_read B W d = Inr (Some v))))
   \<and> (\<exists>v. fst (fetchYahooFinance W series st) = Inr v
         \<and> (v = Null \<or> v = fst (getCached (''yahoo_'' @ series) (now_read W) (cache st))
            \<or> (\<exists>url d. fetch W url = Inr (Inr d) \<and> yahoo_read W d = Inr (Some v))))"
  using no_credential [of E B W series st] fetchEIAData_result [of E B W series st]
    fetchFREDData_result [of E B W series st] fetchOWIDData_result [of B W series st]
    fetchYahooFinance_result [of W series st]
  by blast

theorem adapters_never_raise_witness:
  "fetchEIAData no_keys example_builtins (answering (Inl (Failure ''ECONNREFUSED''))) ''PET.RWTC.D''
       fresh_server = (Inr Null, fresh_server)
   \<and> fetchFREDData no_keys example_builtins (answering (Inl (Failure ''ECONNREFUSED''))) ''PURANUSDM''
       fresh_server = (Inr Null, fresh_server)
   \<and> fst (fetchEIAData with_keys example_builtins (answering (Inl (Failure ''ECONNREFUSED'')))
       ''PET.RWTC.D'' fresh_server) = Inr Null
   \<and> length (requests (snd (fetchEIAData with_keys example_builtins
       (answering (Inl (Failure ''ECONNREFUSED''))) ''PET.RWTC.D'' fresh_server))) = 1
   \<and> fst (fetchYahooFinance (answering (Inr (Inl (Failure ''Unexpected token'')))) ''CL=F''
       fresh_server) = Inr Null
   \<and> fst (fetchFREDData with_keys example_builtins
       (answering (Inr (Inr (Obj [(''observations'', Arr [])])))) ''PURANUSDM'' fresh_server) = Inr Null
   \<and> fst (fetchOWIDData example_builtins (answering (Inr (Inr (Obj [])))) ''solar'' fresh_server)
       = Inr Null"
proof -
  have a: "fetchEIAData no_keys example_builtins (answering (Inl (Failure ''ECONNREFUSED''))) ''PET.RWTC.D''
       fresh_server = (Inr Null, fresh_server)"
    "fetchFREDData no_keys example_builtins (answering (Inl (Failure ''ECONNREFUSED''))) ''PURANUSDM''
       fresh_server = (Inr Null, fresh_server)"
    using adapters_never_raise [of no_keys example_builtins "answering (Inl (Failure ''ECONNREFUSED''))"
        "''PET.RWTC.D''" fresh_server]
      adapters_never_raise [of no_keys example_builtins "answering (Inl (Failure ''ECONNREFUSED''))"
        "''PURANUSDM''" fresh_server]
    by (simp_all add: no_keys_def configured_def)
  have b: "fetchEIAData with_keys example_builtins (answering (Inl (Failure ''ECONNREFUSED'')))
       ''PET.RWTC.D'' fresh_server =
       (Inr Null, fresh_server\<lparr>requests := [''https://api.eia.gov/v2/petroleum/pri/spt/data/?frequency=daily&data[0]=value&facets[series][]=RWTC&sort[0][column]=period&sort[0][direction]=desc&length=1&api_key=eia-key'']\<rparr>)"
    by (simp add: fetchEIAData_def with_keys_def fresh_server_def endpoints_def try_fetch_def
        answering_def Let_def)
  have c: "fst (fetchYahooFinance (answering (Inr (Inl (Failure ''Unexpected token'')))) ''CL=F''
       fresh_server) = Inr Null"
    by (simp add: fetchYahooFinance_def fresh_server_def try_fetch_def answering_def Let_def)
  have d: "fst (fetchFREDData with_keys example_builtins
       (answering (Inr (Inr (Obj [(''observations'', Arr [])])))) ''PURANUSDM'' fresh_server) = Inr Null"
    by (simp add: fetchFREDData_def with_keys_def fresh_server_def try_fetch_def answering_def
        Let_def fred_read_def js_gt0_def)
  have e: "fst (fetchOWIDData example_builtins (answering (Inr (Inr (Obj [])))) ''solar'' fresh_server)
       = Inr Null"
    by (simp add: fetchOWIDData_def fresh_server_def try_fetch_def answering_def Let_def
        owid_read_def)
  from a b c d e show ?thesis by simp
qed

lemma owid_read_record:
  assumes "get d ''USA'' = Inr usa" and "truthy usa" and "keys_of usa = Inr ks"
  shows "owid_read B W d =
     (let usaData = js_or (getprop usa (property_key (latest_year B ks))) usa in
      Inr (Some (Obj
         [(''solar_lcoe'', js_or (getprop usaData ''solar_electricity'') (Num (Fin 28))),
          (''wind_lcoe'', js_or (getprop usaData ''wind_electricity'') (Num (Fin 31))),
          (''nuclear_lcoe'', js_or (getprop usaData ''nuclear_electricity'') (Num (Fin 33))),
          (''date'', js_or (latest_year B ks) (Str (getFullYear W))),
          (''source'', Str ''Our World in Data'')])))"
  using assms
  by (simp add: owid_read_def Let_def get_truthy js_or_truthy)

text \<open>
  C10, as the adapter has it. On a cache miss, when the payload has a truthy \<open>USA\<close>
  entry, the adapter returns a result whose \<open>solar_lcoe\<close>, \<open>wind_lcoe\<close> and
  \<open>nuclear_lcoe\<close> are the values of the fields \<open>solar_electricity\<close>,
  \<open>wind_electricity\<close> and \<open>nuclear_electricity\<close> of the selected record when those
  values are truthy, and the defaults 28, 31 and 33 otherwise (also for a value that is
  present but zero, \<open>null\<close>, \<open>false\<close> or empty); the three fields are never absent
  and the result is labelled \<open>Our World in Data\<close>. The selected record is that of the
  latest year, or the \<open>USA\<close> entry itself.
\<close>

theorem owid_defaults:
  assumes "\<not> truthy (fst (getCached (''owid_'' @ indicator) (now_read W) (cache st)))"
    and "fetch W owid_url = Inr (Inr d)"
    and "get d ''USA'' = Inr usa" and "truthy usa"
  shows "\<exists>ks r. keys_of usa = Inr ks \<and> fst (fetchOWIDData B W indicator st) = Inr r \<and>
     (let usaData = js_or (getprop usa (property_key (latest_year B ks))) usa;
          solar = getprop usaData ''solar_electricity'';
          wind = getprop usaData ''wind_electricity'';
          nuclear = getprop usaData ''nuclear_electricity''
      in getprop r ''solar_lcoe'' = (if truthy solar then solar else Num (Fin 28))
       \<and> getprop r ''wind_lcoe'' = (if truthy wind then wind else Num (Fin 31))
       \<and> getprop r ''nuclear_lcoe'' = (if truthy nuclear then nuclear else Num (Fin 33))
       \<and> truthy (getprop r ''solar_lcoe'') \<and> truthy (getprop r ''wind_lcoe'')
       \<and> truthy (getprop r ''nuclear_lcoe'')
       \<and> getprop r ''source'' = Str ''Our World in Data'')"
proof -
  from keys_of_truthy [OF assms(4)] obtain ks where ks: "keys_of usa = Inr ks" ..
  note rd = owid_read_record [OF assms(3,4) ks, of B W]
  have "fst (fetchOWIDData B W indicator st) = Inr (Obj
         [(''solar_lcoe'', js_or (getprop (js_or (getprop usa (property_key (latest_year B ks))) usa) ''solar_electricity'') (Num (Fin 28))),
          (''wind_lcoe'', js_or (getprop (js_or (getprop usa (property_key (latest_year B ks))) usa) ''wind_electricity'') (Num (Fin 31))),
          (''nuclear_lcoe'', js_or (getprop (js_or (getprop usa (property_key (latest_year B ks))) usa) ''nuclear_electricity'') (Num (Fin 33))),
          (''date'', js_or (latest_year B ks) (Str (getFullYear W))),
          (''source'', Str ''Our World in Data'')])"
    using assms(1,2)
    by (simp add: fetchOWIDData_def try_fetch_def Let_def split_beta rd owid_url_def)
  with ks show ?thesis
    by (simp add: Let_def js_or_def)
qed

lemma latest_year_example:
  "latest_year example_builtins [''iso_code'', ''2020'', ''2021''] = Str ''2021''"
  by (simp add: latest_year_def isNaN_def example_builtins_def)

lemma owid_example:
  "fst (fetchOWIDData example_builtins (answering (Inr (Inr owid_payload))) ''solar'' fresh_server) =
     Inr (Obj [(''solar_lcoe'', Num (Fin 28)), (''wind_lcoe'', Num (Fin 380)),
               (''nuclear_lcoe'', Num (Fin 33)), (''date'', Str ''2021''),
               (''source'', Str ''Our World in Data'')])"
  by (simp add: fetchOWIDData_def fresh_server_def try_fetch_def answering_def Let_def
      owid_read_def owid_payload_def latest_year_example js_or_def)

theorem owid_defaults_witness:
  "fst (fetchOWIDData example_builtins (answering (Inr (Inr owid_payload))) ''solar'' fresh_server) =
     Inr (Obj [(''solar_lcoe'', Num (Fin 28)), (''wind_lcoe'', Num (Fin 380)),
               (''nuclear_lcoe'', Num (Fin 33)), (''date'', Str ''2021''),
               (''source'', Str ''Our World in Data'')])
   \<and> getprop (getprop (getprop owid_payload ''USA'') ''2021'') ''wind_electricity'' = Num (Fin 380)
   \<and> getprop (getprop (getprop owid_payload ''USA'') ''2021'') ''nuclear_electricity'' = Undefined"
proof -
  let ?W = "answering (Inr (Inr owid_payload))"
  have h1: "\<not> truthy (fst (getCached (''owid_'' @ ''solar'') (now_read ?W) (cache fresh_server)))"
    by (simp add: fresh_server_def)
  have h2: "fetch ?W owid_url = Inr (Inr owid_payload)"
    by (simp add: answering_def)
  have h3: "get owid_payload ''USA'' = Inr (getprop owid_payload ''USA'')"
    by (simp add: owid_payload_def)
  have h4: "truthy (getprop owid_payload ''USA'')"
    by (simp add: owid_payload_def)
  from owid_defaults [OF h1 h2 h3 h4, of example_builtins] owid_example
  show ?thesis by (simp add: owid_payload_def)
qed

text \<open>
  C10 as stated fails for a value that is present but falsy: the latest record has
  \<open>solar_electricity = 0\<close>, and the result carries the default 28.
\<close>

theorem owid_zero_counterexample:
  "getprop (getprop (getprop owid_payload ''USA'') ''2021'') ''solar_electricity'' = Num (Fin 0)
   \<and> fst (fetchOWIDData example_builtins (answering (Inr (Inr owid_payload))) ''solar'' fresh_server) =
     Inr (Obj [(''solar_lcoe'', Num (Fin 28)), (''wind_lcoe'', Num (Fin 380)),
               (''nuclear_lcoe'', Num (Fin 33)), (''date'', Str ''2021''),
               (''source'', Str ''Our World in Data'')])"
  using owid_example by (simp add: owid_payload_def)

section \<open>Properties of the projection\<close>





lemma calculateProjection_reached:
  assumes "source \<noteq> []" and "truthy currentData" and "truthy (getprop currentData region)"
    and "truthy (getprop (getprop currentData region) ''price'')"
    and "parseFloat B (getprop (getprop currentData region) ''price'') = Inr cp"
    and "map_of CONFIG_elasticity source = Some el"
    and "usage = (if truthy (Num (parseFloatString B input)) then parseFloatString B input else Fin 0)"
  shows "calculateProjection B (Str source) currentData region input =
     Inr (Some \<lparr>currentPrice = cp, usageIncrease = usage,
        priceIncrease = priceIncrease_formula usage el (getSupplyConstraintFactor source),
        newPrice = newPrice_formula cp
          (priceIncrease_formula usage el (getSupplyConstraintFactor source))\<rparr>)"
  using assms
  by (simp add: calculateProjection_def get_truthy Let_def)





lemma oil_price_increase: "priceIncrease_formula (Fin 10) (lit (4 / 10)) (lit (12 / 10)) = Fin 30"
  by code_simp

lemma oil_new_price:
  "newPrice_formula (lit (745 / 10)) (Fin 30) = Fin (6815212873606759 / 70368744177664)"
  by code_simp

lemma lit_9685: "lit (9685 / 100) = Fin (6815212873606758 / 70368744177664)"
  by code_simp

text \<open>
  C9, as JavaScript computes it. With the oil parameters (price 74.50, usage change 10,
  elasticity 0.4, factor 1.2) the price change is exactly 30. The new price is the
  double \<open>6815212873606759 / 2^46\<close>, printed \<open>96.85000000000001\<close>: one unit in the
  last place above the double nearest to 96.85, and within \<open>10^-14\<close> of 96.85.
\<close>

theorem oil_projection:
  "priceIncrease_formula (Fin 10) (lit (4 / 10)) (lit (12 / 10)) = Fin 30
   \<and> newPrice_formula (lit (745 / 10)) (priceIncrease_formula (Fin 10) (lit (4 / 10)) (lit (12 / 10)))
       = Fin (6815212873606759 / 70368744177664)
   \<and> Fin (6815212873606759 / 70368744177664) = n_add (lit (9685 / 100)) (Fin (1 / 2 ^ 46))
   \<and> \<bar>6815212873606759 / 70368744177664 - 9685 / 100\<bar> < (1 / 10 ^ 14 :: rat)
   \<and> (\<forall>B currentData region input.
          truthy currentData \<and> truthy (getprop currentData region)
          \<and> getprop (getprop currentData region) ''price'' = Num (lit (745 / 10))
          \<and> parseFloatString B input = Fin 10 \<longrightarrow>
          calculateProjection B (Str ''oil'') currentData region input =
            Inr (Some \<lparr>currentPrice = lit (745 / 10), usageIncrease = Fin 10, priceIncrease = Fin 30,
                        newPrice = Fin (6815212873606759 / 70368744177664)\<rparr>))"
proof -
  have ulp: "Fin (6815212873606759 / 70368744177664) = n_add (lit (9685 / 100)) (Fin (1 / 2 ^ 46))"
    by code_simp
  have near: "\<bar>6815212873606759 / 70368744177664 - 9685 / 100\<bar> < (1 / 10 ^ 14 :: rat)"
    by simp
  have elasticity: "map_of CONFIG_elasticity ''oil'' = Some (lit (4 / 10))"
    by (simp add: CONFIG_elasticity_def)
  have factor: "getSupplyConstraintFactor ''oil'' = lit (12 / 10)"
    by code_simp
  have price: "truthy (Num (lit (745 / 10)))"
    by code_simp
  have both: "newPrice_formula (lit (745 / 10)) (priceIncrease_formula (Fin 10) (lit (4 / 10)) (lit (12 / 10)))
       = Fin (6815212873606759 / 70368744177664)"
    by (simp only: oil_price_increase oil_new_price)
  have fn: "calculateProjection B (Str ''oil'') currentData region input =
            Inr (Some \<lparr>currentPrice = lit (745 / 10), usageIncrease = Fin 10, priceIncrease = Fin 30,
                        newPrice = Fin (6815212873606759 / 70368744177664)\<rparr>)"
    if h: "truthy currentData" "truthy (getprop currentData region)"
      "getprop (getprop currentData region) ''price'' = Num (lit (745 / 10))"
      "parseFloatString B input = Fin 10"
    for B currentData region input
  proof -
    have price: "truthy (getprop (getprop currentData region) ''price'')"
      "parseFloat B (getprop (getprop currentData region) ''price'') = Inr (lit (745 / 10))"
      using h(3) price by (simp_all add: lit_def)
    have usage: "Fin 10 = (if truthy (Num (parseFloatString B input)) then parseFloatString B input else Fin 0)"
      using h(4) by simp
    have "calculateProjection B (Str ''oil'') currentData region input =
        Inr (Some \<lparr>currentPrice = lit (745 / 10), usageIncrease = Fin 10,
          priceIncrease = priceIncrease_formula (Fin 10) (lit (4 / 10)) (getSupplyConstraintFactor ''oil''),
          newPrice = newPrice_formula (lit (745 / 10))
            (priceIncrease_formula (Fin 10) (lit (4 / 10)) (getSupplyConstraintFactor ''oil''))\<rparr>)"
      by (rule calculateProjection_reached [OF _ h(1,2) price elasticity usage]) simp
    then show ?thesis by (simp only: factor oil_price_increase oil_new_price)
  qed
  have every: "\<forall>B currentData region input.
          truthy currentData \<and> truthy (getprop currentData region)
          \<and> getprop (getprop currentData region) ''price'' = Num (lit (745 / 10))
          \<and> parseFloatString B input = Fin 10 \<longrightarrow>
          calculateProjection B (Str ''oil'') currentData region input =
            Inr (Some \<lparr>currentPrice = lit (745 / 10), usageIncrease = Fin 10, priceIncrease = Fin 30,
                        newPrice = Fin (6815212873606759 / 70368744177664)\<rparr>)"
    by (intro allI impI, elim conjE, rule fn)
  show ?thesis
    by (intro conjI) (fact oil_price_increase both ulp near every)+
qed

theorem oil_projection_witness:
  "calculateProjection example_builtins (Str ''oil'')
     (Obj [(''us'', Obj [(''price'', Num (lit (745 / 10)))])]) ''us'' ''10'' =
     Inr (Some \<lparr>currentPrice = lit (745 / 10), usageIncrease = Fin 10, priceIncrease = Fin 30,
                 newPrice = Fin (6815212873606759 / 70368744177664)\<rparr>)"
  by (rule oil_projection [THEN conjunct2, THEN conjunct2, THEN conjunct2, THEN conjunct2, rule_format])
    (simp add: example_builtins_def)

text \<open>
  C9 as stated fails on the new price: it is neither the rational 96.85 nor the double
  that the literal \<open>96.85\<close> denotes.
\<close>

theorem oil_new_price_counterexample:
  "newPrice_formula (lit (745 / 10)) (priceIncrease_formula (Fin 10) (lit (4 / 10)) (lit (12 / 10)))
     \<noteq> lit (9685 / 100)
   \<and> newPrice_formula (lit (745 / 10)) (priceIncrease_formula (Fin 10) (lit (4 / 10)) (lit (12 / 10)))
     \<noteq> Fin (9685 / 100)"
  by (simp only: oil_price_increase oil_new_price lit_9685) simp

section \<open>Properties of the cache\<close>

text \<open>
  C6. A cache read returns the stored payload exactly when the entry was stored strictly
  less than five minutes (300000 ms) before the read, and \<open>null\<close> when the entry is
  that old or older; the read leaves the map, and so the expired entry, in place.
\<close>

theorem getCached_ttl:
  "c key = Some item \<Longrightarrow>
     fst (getCached key now c) = (if now - timestamp item < 300000 then data item else Null)
     \<and> snd (getCached key now c) = c
     \<and> fst (getCached key now (setCache key d t0 c)) = (if now - t0 < 300000 then d else Null)
     \<and> snd (getCached key now (setCache key d t0 c)) key = Some \<lparr>data = d, timestamp = t0\<rparr>"
  by (simp add: getCached_def setCache_def CACHE_TTL_def)

theorem getCached_ttl_witness:
  "fst (getCached ''eia_COAL.PRICE'' 300999 [''eia_COAL.PRICE'' \<mapsto> \<lparr>data = Str ''p'', timestamp = 1000\<rparr>])
     = Str ''p''
   \<and> fst (getCached ''eia_COAL.PRICE'' 301000 [''eia_COAL.PRICE'' \<mapsto> \<lparr>data = Str ''p'', timestamp = 1000\<rparr>])
     = Null
   \<and> snd (getCached ''eia_COAL.PRICE'' 301000 [''eia_COAL.PRICE'' \<mapsto> \<lparr>data = Str ''p'', timestamp = 1000\<rparr>])
       ''eia_COAL.PRICE'' = Some \<lparr>data = Str ''p'', timestamp = 1000\<rparr>"
  using getCached_ttl [of "[''eia_COAL.PRICE'' \<mapsto> \<lparr>data = Str ''p'', timestamp = 1000\<rparr>]"
      "''eia_COAL.PRICE''" "\<lparr>data = Str ''p'', timestamp = 1000\<rparr>" 300999 "Null" 0]
    getCached_ttl [of "[''eia_COAL.PRICE'' \<mapsto> \<lparr>data = Str ''p'', timestamp = 1000\<rparr>]"
      "''eia_COAL.PRICE''" "\<lparr>data = Str ''p'', timestamp = 1000\<rparr>" 301000 "Null" 0]
  by simp

end
